theory Spec2Isabelle
  imports Main "HOL-Library.AList" "HOL-Library.Signed_Division"
begin

section \<open>Elasticsearch time-series query builder (pkg/tsdb/elasticsearch/time_series_query.go)\<close>

text \<open>
  A shallow embedding of \<^verbatim>\<open>time_series_query.go\<close>. The file translates a parsed panel
  query (bucket aggregations, metrics, pipeline metrics) into a nested aggregation request.
  Go pointers to structs become values that are passed in and returned updated; Go maps
  become association lists written with \<^const>\<open>AList.update\<close> and read with \<^const>\<open>map_of\<close>;
  Go errors become \<open>Inl\<close> values and a run-time panic becomes the error \<open>IndexOutOfRange\<close>.
\<close>

subsection \<open>The Go standard library: strconv and regexp\<close>

definition isDigit :: "char \<Rightarrow> bool" where
  "isDigit c = (48 \<le> (of_char c :: nat) \<and> (of_char c :: nat) \<le> 57)"

definition digitsValue :: "string \<Rightarrow> int" where
  "digitsValue ds = foldl (\<lambda>n c. 10 * n + (of_char c - 48)) 0 ds"

text \<open>
  \<^verbatim>\<open>strconv.ParseInt(s, 10, 64)\<close>: an optional sign, then one or more decimal digits and
  nothing else; the value must fit in 64 signed bits.
\<close>

definition ParseInt :: "string \<Rightarrow> int option" where
  "ParseInt s =
     (case s of
        [] \<Rightarrow> None
      | c # r \<Rightarrow>
          (let neg = (c = CHR ''-'');
               ds = (if c = CHR ''+'' \<or> c = CHR ''-'' then r else s)
           in if ds = [] \<or> \<not> list_all isDigit ds then None
              else (let v = (if neg then - digitsValue ds else digitsValue ds)
                    in if v < - (2 ^ 63) \<or> 2 ^ 63 - 1 < v then None else Some v)))"

text \<open>
  \<^verbatim>\<open>strconv.Atoi(s)\<close> on a 64-bit platform accepts the same strings with the same values
  (its fast path is the same grammar on short strings).
\<close>

definition Atoi :: "string \<Rightarrow> int option" where
  "Atoi s = ParseInt s"

text \<open>\<^verbatim>\<open>regexp.MustCompile(`^(\d+)`).FindString(s)\<close>: the longest prefix of ASCII digits.\<close>

definition metricIdRegex_FindString :: "string \<Rightarrow> string" where
  "metricIdRegex_FindString s = takeWhile isDigit s"

subsection \<open>Dynamic JSON values (simplejson)\<close>

text \<open>
  Modelled from the spec: \<^verbatim>\<open>simplejson.Json\<close> (pkg/components/simplejson is not under src/),
  the "opaque, loosely-typed Settings map (arbitrary dynamic JSON-like structure)" that is
  probed at run time. A value is what a Go \<^verbatim>\<open>interface{}\<close> holds after JSON decoding or
  after this file has written to it: \<open>JNumber\<close> is a decoded \<^verbatim>\<open>json.Number\<close> (its text),
  \<open>JInt\<close> a Go integer, \<open>JFloat\<close> a \<^verbatim>\<open>float64\<close>. The type \<open>'f\<close> stands for
  \<^verbatim>\<open>float64\<close>; its arithmetic is never needed here. A nil Go map and an empty one are both
  the empty association list.
\<close>

datatype 'f json =
    JNull
  | JBool bool
  | JNumber string
  | JInt int
  | JFloat 'f
  | JString string
  | JArray "'f json list"
  | JObject "(string \<times> 'f json) list"

text \<open>
  What the file needs from outside: \<^verbatim>\<open>strconv.ParseFloat(s, 64)\<close> and the conversion
  \<^verbatim>\<open>int(float64)\<close>, which are floating point; the three type tables of the package
  (\<^verbatim>\<open>isPipelineAgg\<close>, \<^verbatim>\<open>isPipelineAggWithMultipleBucketPaths\<close>,
  \<^verbatim>\<open>isMetricAggregationWithInlineScriptSupport\<close>), which are declared outside src/; the
  injected client (\<^verbatim>\<open>GetMinInterval\<close>, \<^verbatim>\<open>GetTimeField\<close>) and the interval
  calculator. All are parameters.
\<close>

record TimeRange =
  From :: int
  To :: int

record Interval =
  Text :: string
  Value :: int

record 'f Deps =
  ParseFloat :: "string \<Rightarrow> 'f option"
  FloatToInt :: "'f \<Rightarrow> int"
  isPipelineAgg :: "string \<Rightarrow> bool"
  isPipelineAggWithMultipleBucketPaths :: "string \<Rightarrow> bool"
  isMetricAggregationWithInlineScriptSupport :: "string \<Rightarrow> bool"
  GetMinInterval :: "string \<Rightarrow> string + int"
  GetTimeField :: string
  Calculate :: "TimeRange \<Rightarrow> int \<Rightarrow> int \<Rightarrow> Interval"

text \<open>Modelled from the spec: \<^verbatim>\<open>(*Json).Map\<close>, the type assertion to a map.\<close>

definition Json_Map :: "'f json \<Rightarrow> (string \<times> 'f json) list option" where
  "Json_Map j = (case j of JObject m \<Rightarrow> Some m | _ \<Rightarrow> None)"

text \<open>Modelled from the spec: \<^verbatim>\<open>(*Json).MustMap\<close>; the default is the nil map.\<close>

definition Json_MustMap :: "'f json \<Rightarrow> (string \<times> 'f json) list" where
  "Json_MustMap j = (case Json_Map j of Some m \<Rightarrow> m | None \<Rightarrow> [])"

text \<open>
  Modelled from the spec: \<^verbatim>\<open>(*Json).Get\<close>; a missing key, or a receiver that is not a
  map, gives the nil value.
\<close>

definition Json_Get :: "string \<Rightarrow> 'f json \<Rightarrow> 'f json" where
  "Json_Get key j =
     (case Json_Map j of
        Some m \<Rightarrow> (case map_of m key of Some val \<Rightarrow> val | None \<Rightarrow> JNull)
      | None \<Rightarrow> JNull)"

text \<open>Modelled from the spec: \<^verbatim>\<open>(*Json).GetPath\<close>, \<^verbatim>\<open>Get\<close> along a branch.\<close>

fun Json_GetPath :: "string list \<Rightarrow> 'f json \<Rightarrow> 'f json" where
  "Json_GetPath [] j = j"
| "Json_GetPath (p # branch) j = Json_GetPath branch (Json_Get p j)"

text \<open>
  Modelled from the spec: \<^verbatim>\<open>(*Json).SetPath\<close>. The empty branch replaces the value; on the
  way down a receiver or an entry that is not a map is replaced by a fresh map, a missing
  entry is created, and the last key is assigned.
\<close>

fun Json_SetPath :: "string list \<Rightarrow> 'f json \<Rightarrow> 'f json \<Rightarrow> 'f json" where
  "Json_SetPath [] val j = val"
| "Json_SetPath (b # branch) val j =
     (let curr = Json_MustMap j
      in JObject (AList.update b (Json_SetPath branch val (Json_Get b j)) curr))"

text \<open>Modelled from the spec: \<^verbatim>\<open>(*Json).String\<close>, the type assertion to a string.\<close>

definition Json_String :: "'f json \<Rightarrow> string option" where
  "Json_String j = (case j of JString s \<Rightarrow> Some s | _ \<Rightarrow> None)"

text \<open>Modelled from the spec: \<^verbatim>\<open>(*Json).MustString\<close> with its default.\<close>

definition Json_MustString :: "'f json \<Rightarrow> string \<Rightarrow> string" where
  "Json_MustString j d = (case Json_String j of Some s \<Rightarrow> s | None \<Rightarrow> d)"

text \<open>
  Modelled from the spec: \<^verbatim>\<open>(*Json).Int\<close>: a \<^verbatim>\<open>json.Number\<close> is parsed as a 64-bit
  integer, a float is truncated, an integer is taken as it is; anything else is an error.
\<close>

definition Json_Int :: "('f, 'z) Deps_scheme \<Rightarrow> 'f json \<Rightarrow> int option" where
  "Json_Int e j =
     (case j of
        JNumber s \<Rightarrow> ParseInt s
      | JFloat f \<Rightarrow> Some (FloatToInt e f)
      | JInt i \<Rightarrow> Some i
      | _ \<Rightarrow> None)"

text \<open>Modelled from the spec: \<^verbatim>\<open>(*Json).MustInt\<close> with its default.\<close>

definition Json_MustInt :: "('f, 'z) Deps_scheme \<Rightarrow> 'f json \<Rightarrow> int \<Rightarrow> int" where
  "Json_MustInt e j d = (case Json_Int e j of Some i \<Rightarrow> i | None \<Rightarrow> d)"

text \<open>Modelled from the spec: \<^verbatim>\<open>(*Json).MustArray\<close>; the default is the nil slice.\<close>

definition Json_MustArray :: "'f json \<Rightarrow> 'f json list" where
  "Json_MustArray j = (case j of JArray a \<Rightarrow> a | _ \<Rightarrow> [])"

text \<open>Modelled from the spec: \<^verbatim>\<open>simplejson.NewFromAny\<close> applied to a map.\<close>

definition NewFromAny :: "(string \<times> 'f json) list \<Rightarrow> 'f json" where
  "NewFromAny m = JObject m"

subsection \<open>The query model\<close>

text \<open>
  Modelled from the spec: the structs \<^verbatim>\<open>BucketAgg\<close>, \<^verbatim>\<open>MetricAgg\<close> and \<^verbatim>\<open>Query\<close>
  and the type-name constants (declared in the package's models file, not under src/), with the
  fields this file reads. \<^verbatim>\<open>PipelineVariables\<close> is a Go map from names to references,
  so its names are distinct. \<^verbatim>\<open>Settings\<close> is a pointer that the parser always sets; it
  is modelled by the value it points to.
\<close>

record 'f BucketAgg =
  Field :: string
  ID :: string
  Settings :: "'f json"
  Type :: string

record 'f MetricAgg =
  Field :: string
  ID :: string
  PipelineAggregate :: string
  PipelineVariables :: "(string \<times> string) list"
  Settings :: "'f json"
  Type :: string

record 'f Query =
  RawQuery :: string
  BucketAggs :: "'f BucketAgg list"
  Metrics :: "'f MetricAgg list"
  Interval :: string
  RefID :: string
  MaxDataPoints :: int

definition countType :: string where "countType = ''count''"
definition dateHistType :: string where "dateHistType = ''date_histogram''"
definition histogramType :: string where "histogramType = ''histogram''"
definition filtersType :: string where "filtersType = ''filters''"
definition termsType :: string where "termsType = ''terms''"
definition geohashGridType :: string where "geohashGridType = ''geohash_grid''"

text \<open>Modelled from the spec: the date format constant of the client package.\<close>

definition DateFormatEpochMS :: string where "DateFormatEpochMS = ''epoch_millis''"

subsection \<open>Settings normalisation\<close>

text \<open>\<^verbatim>\<open>setFloatPath\<close> and \<^verbatim>\<open>setIntPath\<close>; both write into the settings in place.\<close>

definition setFloatPath :: "('f, 'z) Deps_scheme \<Rightarrow> 'f json \<Rightarrow> string list \<Rightarrow> 'f json" where
  "setFloatPath e settings path =
     (case Json_String (Json_GetPath path settings) of
        Some stringValue \<Rightarrow>
          (case ParseFloat e stringValue of
             Some v \<Rightarrow> Json_SetPath path (JFloat v) settings
           | None \<Rightarrow> settings)
      | None \<Rightarrow> settings)"

definition setIntPath :: "'f json \<Rightarrow> string list \<Rightarrow> 'f json" where
  "setIntPath settings path =
     (case Json_String (Json_GetPath path settings) of
        Some stringValue \<Rightarrow>
          (case ParseInt stringValue of
             Some v \<Rightarrow> Json_SetPath path (JInt v) settings
           | None \<Rightarrow> settings)
      | None \<Rightarrow> settings)"

text \<open>
  \<^verbatim>\<open>MetricAgg.generateSettingsForDSL\<close> has a value receiver, but \<^verbatim>\<open>Settings\<close> is a
  pointer: the writes reach the caller's settings. \<open>MetricAgg_normalizedSettings\<close> is the
  settings value after the call, \<open>MetricAgg_generateSettingsForDSL\<close> the map it returns.
\<close>

definition MetricAgg_castFloats :: "('f, 'z) Deps_scheme \<Rightarrow> string \<Rightarrow> 'f json \<Rightarrow> 'f json" where
  "MetricAgg_castFloats e ty s =
     (if ty = ''moving_avg'' then
        (let s1 = setFloatPath e s [''window''];
             s2 = setFloatPath e s1 [''predict''];
             s3 = setFloatPath e s2 [''settings'', ''alpha''];
             s4 = setFloatPath e s3 [''settings'', ''beta''];
             s5 = setFloatPath e s4 [''settings'', ''gamma'']
         in setFloatPath e s5 [''settings'', ''period''])
      else if ty = ''serial_diff'' then setFloatPath e s [''lag'']
      else s)"

definition MetricAgg_script :: "('f, 'z) Deps_scheme \<Rightarrow> string \<Rightarrow> 'f json \<Rightarrow> 'f json" where
  "MetricAgg_script e ty s =
     (if isMetricAggregationWithInlineScriptSupport e ty then
        (let scriptValue =
               (case Json_String (Json_GetPath [''script''] s) of
                  Some v \<Rightarrow> Some v
                | None \<Rightarrow> Json_String (Json_GetPath [''script'', ''inline''] s))
         in case scriptValue of
              Some v \<Rightarrow> Json_SetPath [''script''] (JString v) s
            | None \<Rightarrow> s)
      else s)"

definition MetricAgg_normalizedSettings ::
  "('f, 'z) Deps_scheme \<Rightarrow> ('f, 'y) MetricAgg_scheme \<Rightarrow> 'f json" where
  "MetricAgg_normalizedSettings e metricAggregation =
     MetricAgg_script e (MetricAgg.Type metricAggregation)
       (MetricAgg_castFloats e (MetricAgg.Type metricAggregation)
          (MetricAgg.Settings metricAggregation))"

definition MetricAgg_generateSettingsForDSL ::
  "('f, 'z) Deps_scheme \<Rightarrow> ('f, 'y) MetricAgg_scheme \<Rightarrow> (string \<times> 'f json) list" where
  "MetricAgg_generateSettingsForDSL e metricAggregation =
     Json_MustMap (MetricAgg_normalizedSettings e metricAggregation)"

definition BucketAgg_normalizedSettings :: "('f, 'y) BucketAgg_scheme \<Rightarrow> 'f json" where
  "BucketAgg_normalizedSettings bucketAgg =
     setIntPath (BucketAgg.Settings bucketAgg) [''min_doc_count'']"

definition BucketAgg_generateSettingsForDSL ::
  "('f, 'y) BucketAgg_scheme \<Rightarrow> (string \<times> 'f json) list" where
  "BucketAgg_generateSettingsForDSL bucketAgg =
     Json_MustMap (BucketAgg_normalizedSettings bucketAgg)"

subsection \<open>The aggregation tree and its builder\<close>

text \<open>
  Modelled from the spec: the aggregation structs of the client package (not under src/), one
  record per struct, holding the fields this file assigns. A Go pointer field that may be nil
  is an option; \<^verbatim>\<open>Order\<close> and \<^verbatim>\<open>Filters\<close> are Go maps.
\<close>

record DateHistogramAgg =
  Field :: string
  FixedInterval :: string
  MinDocCount :: int
  Missing :: "string option"
  ExtendedBounds :: "(int \<times> int) option"
  Format :: string
  Offset :: string
  TimeZone :: string

record HistogramAgg =
  Interval :: int
  Field :: string
  MinDocCount :: int
  Missing :: "int option"

record TermsAggregation =
  Field :: string
  Size :: int
  Order :: "(string \<times> string) list"
  MinDocCount :: "int option"
  Missing :: "string option"

record QueryStringFilter =
  Query :: string
  AnalyzeWildcard :: bool

record FiltersAggregation =
  Filters :: "(string \<times> QueryStringFilter) list"

record GeoHashGridAggregation =
  Field :: string
  Precision :: int

record 'f MetricAggregation =
  Field :: string
  Settings :: "(string \<times> 'f json) list"

record 'f PipelineAggregation =
  BucketPath :: "'f json"
  Settings :: "(string \<times> 'f json) list"

datatype 'f aggregation =
    AggDateHistogram DateHistogramAgg
  | AggHistogram HistogramAgg
  | AggTerms TermsAggregation
  | AggFilters FiltersAggregation
  | AggGeoHashGrid GeoHashGridAggregation
  | AggMetric "'f MetricAggregation"
  | AggPipeline "'f PipelineAggregation"

text \<open>
  Modelled from the spec: an aggregation definition of the client package: its key, the type
  name of its container, the aggregation, and the definitions held by its nested builder.
\<close>

datatype 'f aggDef =
  AggDef (key: string) (aggType: string) (aggregation: "'f aggregation")
    (children: "'f aggDef list")

text \<open>
  Modelled from the spec: \<^verbatim>\<open>es.AggBuilder\<close> (not under src/). A builder is a list of
  definitions that grows at its end. A bucket method creates a definition with a nested
  builder, runs the callback on them and appends the definition; every callback of this file
  rebinds the variable \<^verbatim>\<open>aggBuilder\<close> to the nested builder ("the builder carries forward
  the nested aggregation pointer"). The variable is therefore a position in the tree: the
  definitions of the builder it points to, and, innermost first, the open ancestors, each
  with the definitions that precede it in its own builder.
\<close>

type_synonym 'f AggBuilder =
  "('f aggDef list \<times> string \<times> string \<times> 'f aggregation) list \<times> 'f aggDef list"

text \<open>\<^verbatim>\<open>b.Agg()\<close>: a fresh root builder.\<close>

definition newAggBuilder :: "'f AggBuilder" where
  "newAggBuilder = ([], [])"

text \<open>A leaf method (\<^verbatim>\<open>Metric\<close>, \<^verbatim>\<open>Pipeline\<close>): appends to the current builder.\<close>

definition AggBuilder_append :: "'f aggDef \<Rightarrow> 'f AggBuilder \<Rightarrow> 'f AggBuilder" where
  "AggBuilder_append d ab = (fst ab, snd ab @ [d])"

text \<open>
  A bucket method followed by \<^verbatim>\<open>aggBuilder = b\<close>: the new definition is open, and the
  current builder is its nested one, holding what the callback has put there.
\<close>

definition AggBuilder_nest ::
  "string \<Rightarrow> string \<Rightarrow> 'f aggregation \<Rightarrow> 'f aggDef list \<Rightarrow> 'f AggBuilder \<Rightarrow> 'f AggBuilder" where
  "AggBuilder_nest k ty a inner ab = ((snd ab, k, ty, a) # fst ab, inner)"

text \<open>The definitions of the root builder, as the request will hold them.\<close>

fun AggBuilder_close ::
  "('f aggDef list \<times> string \<times> string \<times> 'f aggregation) list \<Rightarrow> 'f aggDef list
   \<Rightarrow> 'f aggDef list" where
  "AggBuilder_close [] cur = cur"
| "AggBuilder_close ((before, k, ty, a) # outer) cur =
     AggBuilder_close outer (before @ [AggDef k ty a cur])"

definition AggBuilder_root :: "'f AggBuilder \<Rightarrow> 'f aggDef list" where
  "AggBuilder_root ab = AggBuilder_close (fst ab) (snd ab)"

definition AggBuilder_Metric ::
  "string \<Rightarrow> string \<Rightarrow> string \<Rightarrow> (string \<times> 'f json) list \<Rightarrow> 'f aggDef" where
  "AggBuilder_Metric k metricType field settings =
     AggDef k metricType
       (AggMetric \<lparr>MetricAggregation.Field = field, MetricAggregation.Settings = settings\<rparr>) []"

definition AggBuilder_Pipeline ::
  "string \<Rightarrow> string \<Rightarrow> 'f json \<Rightarrow> (string \<times> 'f json) list \<Rightarrow> 'f aggDef" where
  "AggBuilder_Pipeline k pipelineType bucketPath settings =
     AggDef k pipelineType
       (AggPipeline \<lparr>BucketPath = bucketPath, PipelineAggregation.Settings = settings\<rparr>) []"

text \<open>Measures of a finished tree: which definitions are buckets, how deep they nest, and
  the chain of buckets from the root inwards.\<close>

fun isBucketAggregation :: "'f aggregation \<Rightarrow> bool" where
  "isBucketAggregation (AggMetric _) = False"
| "isBucketAggregation (AggPipeline _) = False"
| "isBucketAggregation _ = True"

fun nestingDepth :: "'f aggDef \<Rightarrow> nat" and nestingDepths :: "'f aggDef list \<Rightarrow> nat" where
  "nestingDepth (AggDef k ty a ch) =
     (if isBucketAggregation a then Suc (nestingDepths ch) else nestingDepths ch)"
| "nestingDepths [] = 0"
| "nestingDepths (d # ds) = max (nestingDepth d) (nestingDepths ds)"

fun bucketChain :: "'f aggDef \<Rightarrow> (string \<times> string) list"
  and bucketChains :: "'f aggDef list \<Rightarrow> (string \<times> string) list" where
  "bucketChain (AggDef k ty a ch) = (k, ty) # bucketChains ch"
| "bucketChains [] = []"
| "bucketChains (d # ds) =
     (if isBucketAggregation (aggregation d) then bucketChain d else bucketChains ds)"

fun aggTypes :: "'f aggDef \<Rightarrow> string list" and aggTypesOf :: "'f aggDef list \<Rightarrow> string list" where
  "aggTypes (AggDef k ty a ch) = ty # aggTypesOf ch"
| "aggTypesOf [] = []"
| "aggTypesOf (d # ds) = aggTypes d @ aggTypesOf ds"

subsection \<open>Bucket aggregations\<close>

definition addDateHistogramAgg ::
  "('f, 'z) Deps_scheme \<Rightarrow> 'f AggBuilder \<Rightarrow> ('f, 'y) BucketAgg_scheme \<Rightarrow> int \<Rightarrow> int \<Rightarrow> string
   \<Rightarrow> 'f AggBuilder" where
  "addDateHistogramAgg e aggBuilder bucketAgg timeFrom timeTo timeField =
     (let field = (if BucketAgg.Field bucketAgg = [] then timeField else BucketAgg.Field bucketAgg);
          st = BucketAgg.Settings bucketAgg;
          a0 = \<lparr>DateHistogramAgg.Field = field, FixedInterval = [], MinDocCount = 0,
                Missing = None, ExtendedBounds = None, Format = [], Offset = [], TimeZone = []\<rparr>;
          a1 = a0\<lparr>FixedInterval := Json_MustString (Json_Get ''interval'' st) ''auto''\<rparr>;
          a2 = a1\<lparr>DateHistogramAgg.MinDocCount := Json_MustInt e (Json_Get ''min_doc_count'' st) 0\<rparr>;
          a3 = a2\<lparr>ExtendedBounds := Some (timeFrom, timeTo)\<rparr>;
          a4 = a3\<lparr>Format := Json_MustString (Json_Get ''format'' st) DateFormatEpochMS\<rparr>;
          a5 = (if FixedInterval a4 = ''auto'' then a4\<lparr>FixedInterval := ''$__interval_msms''\<rparr>
                else a4);
          a6 = (case Json_String (Json_Get ''offset'' st) of
                  Some offset \<Rightarrow> a5\<lparr>Offset := offset\<rparr> | None \<Rightarrow> a5);
          a7 = (case Json_String (Json_Get ''missing'' st) of
                  Some missing \<Rightarrow> a6\<lparr>DateHistogramAgg.Missing := Some missing\<rparr> | None \<Rightarrow> a6);
          a8 = (case Json_String (Json_Get ''timeZone'' st) of
                  Some timezone \<Rightarrow> (if timezone \<noteq> ''utc'' then a7\<lparr>TimeZone := timezone\<rparr> else a7)
                | None \<Rightarrow> a7)
      in AggBuilder_nest (BucketAgg.ID bucketAgg) ''date_histogram'' (AggDateHistogram a8) []
           aggBuilder)"

definition addHistogramAgg ::
  "('f, 'z) Deps_scheme \<Rightarrow> 'f AggBuilder \<Rightarrow> ('f, 'y) BucketAgg_scheme \<Rightarrow> 'f AggBuilder" where
  "addHistogramAgg e aggBuilder bucketAgg =
     (let st = BucketAgg.Settings bucketAgg;
          a0 = \<lparr>HistogramAgg.Interval = 0, HistogramAgg.Field = BucketAgg.Field bucketAgg,
                HistogramAgg.MinDocCount = 0, HistogramAgg.Missing = None\<rparr>;
          a1 = a0\<lparr>HistogramAgg.Interval := Json_MustInt e (Json_Get ''interval'' st) 1000\<rparr>;
          a2 = a1\<lparr>HistogramAgg.MinDocCount := Json_MustInt e (Json_Get ''min_doc_count'' st) 0\<rparr>;
          a3 = (case Json_Int e (Json_Get ''missing'' st) of
                  Some missing \<Rightarrow> a2\<lparr>HistogramAgg.Missing := Some missing\<rparr> | None \<Rightarrow> a2)
      in AggBuilder_nest (BucketAgg.ID bucketAgg) ''histogram'' (AggHistogram a3) [] aggBuilder)"

text \<open>The size that \<^verbatim>\<open>addTermsAgg\<close> assigns to \<^verbatim>\<open>a.Size\<close> (lines 318 to 330).\<close>

definition addTermsAgg_size :: "('f, 'z) Deps_scheme \<Rightarrow> 'f json \<Rightarrow> int" where
  "addTermsAgg_size e st =
     (let sz = (case Json_Int e (Json_Get ''size'' st) of
                  Some n \<Rightarrow> n
                | None \<Rightarrow>
                    (case Json_String (Json_Get ''size'' st) of
                       Some str \<Rightarrow> (case Atoi str of Some n \<Rightarrow> n | None \<Rightarrow> 500)
                     | None \<Rightarrow> 500))
      in if sz = 0 then 500 else sz)"

text \<open>
  The ordering part of the callback of \<^verbatim>\<open>addTermsAgg\<close>: the aggregation with its order
  set, and what the callback has added to the nested builder.
\<close>

definition addTermsAgg_order ::
  "'f json \<Rightarrow> ('f, 'y) MetricAgg_scheme list \<Rightarrow> TermsAggregation
   \<Rightarrow> TermsAggregation \<times> 'f aggDef list" where
  "addTermsAgg_order st metrics a =
     (case Json_String (Json_Get ''orderBy'' st) of
        Some orderBy \<Rightarrow>
          (let metricId = metricIdRegex_FindString orderBy;
               dir = Json_MustString (Json_Get ''order'' st) ''desc''
           in if length metricId > 0 then
                (case find (\<lambda>m. MetricAgg.ID m = metricId) metrics of
                   Some m \<Rightarrow>
                     (if MetricAgg.Type m = ''count''
                      then (a\<lparr>Order := AList.update ''_count'' dir (Order a)\<rparr>, [])
                      else (a\<lparr>Order := AList.update orderBy dir (Order a)\<rparr>,
                            [AggBuilder_Metric (MetricAgg.ID m) (MetricAgg.Type m)
                               (MetricAgg.Field m) []]))
                 | None \<Rightarrow> (a, []))
              else (a\<lparr>Order := AList.update orderBy dir (Order a)\<rparr>, []))
      | None \<Rightarrow> (a, []))"

definition addTermsAgg ::
  "('f, 'z) Deps_scheme \<Rightarrow> 'f AggBuilder \<Rightarrow> ('f, 'y) BucketAgg_scheme
   \<Rightarrow> ('f, 'x) MetricAgg_scheme list \<Rightarrow> 'f AggBuilder" where
  "addTermsAgg e aggBuilder bucketAgg metrics =
     (let st = BucketAgg.Settings bucketAgg;
          a0 = \<lparr>TermsAggregation.Field = BucketAgg.Field bucketAgg, Size = 0, Order = [],
                TermsAggregation.MinDocCount = None, TermsAggregation.Missing = None\<rparr>;
          a1 = a0\<lparr>Size := addTermsAgg_size e st\<rparr>;
          a2 = (case Json_Int e (Json_Get ''min_doc_count'' st) of
                  Some minDocCount \<Rightarrow> a1\<lparr>TermsAggregation.MinDocCount := Some minDocCount\<rparr>
                | None \<Rightarrow> a1);
          a3 = (case Json_String (Json_Get ''missing'' st) of
                  Some missing \<Rightarrow> a2\<lparr>TermsAggregation.Missing := Some missing\<rparr>
                | None \<Rightarrow> a2);
          (a4, inner) = addTermsAgg_order st metrics a3
      in AggBuilder_nest (BucketAgg.ID bucketAgg) ''terms'' (AggTerms a4) inner aggBuilder)"

text \<open>The filter map that \<^verbatim>\<open>addFiltersAgg\<close> collects (lines 371 to 380).\<close>

definition addFiltersAgg_filters :: "'f json \<Rightarrow> (string \<times> QueryStringFilter) list" where
  "addFiltersAgg_filters st =
     fold (\<lambda>filter filters.
             (let query = Json_MustString (Json_Get ''query'' filter) [];
                  label0 = Json_MustString (Json_Get ''label'' filter) [];
                  label = (if label0 = [] then query else label0)
              in AList.update label \<lparr>Query = query, AnalyzeWildcard = True\<rparr> filters))
          (Json_MustArray (Json_Get ''filters'' st)) []"

definition addFiltersAgg ::
  "'f AggBuilder \<Rightarrow> ('f, 'y) BucketAgg_scheme \<Rightarrow> 'f AggBuilder" where
  "addFiltersAgg aggBuilder bucketAgg =
     (let filters = addFiltersAgg_filters (BucketAgg.Settings bucketAgg)
      in if length filters > 0
         then AggBuilder_nest (BucketAgg.ID bucketAgg) ''filters''
                (AggFilters \<lparr>Filters = filters\<rparr>) [] aggBuilder
         else aggBuilder)"

definition addGeoHashGridAgg ::
  "('f, 'z) Deps_scheme \<Rightarrow> 'f AggBuilder \<Rightarrow> ('f, 'y) BucketAgg_scheme \<Rightarrow> 'f AggBuilder" where
  "addGeoHashGridAgg e aggBuilder bucketAgg =
     (let a = \<lparr>GeoHashGridAggregation.Field = BucketAgg.Field bucketAgg,
               Precision = Json_MustInt e (Json_Get ''precision'' (BucketAgg.Settings bucketAgg)) 3\<rparr>
      in AggBuilder_nest (BucketAgg.ID bucketAgg) ''geohash_grid'' (AggGeoHashGrid a) []
           aggBuilder)"

subsection \<open>Requests, responses and errors\<close>

text \<open>
  A Go \<^verbatim>\<open>error\<close> value carries its message; indexing a slice out of range panics.
\<close>

datatype error = IndexOutOfRange | Err string

text \<open>
  \<^verbatim>\<open>backend.DataQuery\<close> and \<^verbatim>\<open>backend.DataResponse\<close> of the plugin SDK, with the fields
  this file uses. A time is its \<^verbatim>\<open>UnixNano()\<close> value. \<^verbatim>\<open>backend.Responses\<close> is a map
  from reference IDs to responses.
\<close>

record DataQuery =
  RefID :: string
  TimeRange :: TimeRange

record DataResponse =
  Error :: "string option"

type_synonym Responses = "string \<rightharpoonup> DataResponse"

text \<open>
  Modelled from the spec: \<^verbatim>\<open>es.SearchRequestBuilder\<close> and
  \<^verbatim>\<open>es.MultiSearchRequestBuilder\<close> (not under src/). A search request records what this
  file asks of its builder: the interval it was created with, the last size set, the sort
  keys with their unmapped types, the doc-value fields, whether highlighting was requested, the
  filters added, and the definitions of its root aggregation builder. A multi-search builder
  is the list of its search requests in creation order.
\<close>

datatype queryFilter =
    DateRangeFilter string int int string
  | QueryString QueryStringFilter

record 'f SearchRequestBuilder =
  srInterval :: Interval
  srSize :: int
  srSort :: "(string \<times> string) list"
  srDocValueFields :: "string list"
  srHighlight :: bool
  srFilters :: "queryFilter list"
  srAggs :: "'f aggDef list"

type_synonym 'f MultiSearchRequestBuilder = "'f SearchRequestBuilder list"

subsection \<open>processQuery\<close>

text \<open>One turn of the bucket loop of \<^verbatim>\<open>processQuery\<close> (lines 120 to 136): the bucket
  aggregation gets its normalised settings, then its node, if its type is known.\<close>

definition processQuery_bucket ::
  "('f, 'z) Deps_scheme \<Rightarrow> int \<Rightarrow> int \<Rightarrow> string \<Rightarrow> 'f MetricAgg list \<Rightarrow> 'f BucketAgg
   \<Rightarrow> 'f AggBuilder \<Rightarrow> 'f BucketAgg \<times> 'f AggBuilder" where
  "processQuery_bucket e from to defaultTimeField metrics bucketAgg0 aggBuilder =
     (let bucketAgg = bucketAgg0\<lparr>BucketAgg.Settings :=
                        NewFromAny (BucketAgg_generateSettingsForDSL bucketAgg0)\<rparr>
      in (bucketAgg,
          if BucketAgg.Type bucketAgg = dateHistType
            then addDateHistogramAgg e aggBuilder bucketAgg from to defaultTimeField
          else if BucketAgg.Type bucketAgg = histogramType
            then addHistogramAgg e aggBuilder bucketAgg
          else if BucketAgg.Type bucketAgg = filtersType
            then addFiltersAgg aggBuilder bucketAgg
          else if BucketAgg.Type bucketAgg = termsType
            then addTermsAgg e aggBuilder bucketAgg metrics
          else if BucketAgg.Type bucketAgg = geohashGridType
            then addGeoHashGridAgg e aggBuilder bucketAgg
          else aggBuilder))"

text \<open>The bucket loop, in declared order.\<close>

primrec processQuery_buckets ::
  "('f, 'z) Deps_scheme \<Rightarrow> int \<Rightarrow> int \<Rightarrow> string \<Rightarrow> 'f MetricAgg list \<Rightarrow> 'f BucketAgg list
   \<Rightarrow> 'f AggBuilder \<Rightarrow> 'f BucketAgg list \<times> 'f AggBuilder" where
  "processQuery_buckets e from to defaultTimeField metrics [] aggBuilder = ([], aggBuilder)"
| "processQuery_buckets e from to defaultTimeField metrics (bucketAgg0 # rest) aggBuilder =
     (case processQuery_bucket e from to defaultTimeField metrics bucketAgg0 aggBuilder of
        (bucketAgg, aggBuilder') \<Rightarrow>
          (case processQuery_buckets e from to defaultTimeField metrics rest aggBuilder' of
             (rest', aggBuilder'') \<Rightarrow> (bucketAgg # rest', aggBuilder'')))"

text \<open>The bucket-path map of a pipeline metric with several variables (lines 148 to 166).\<close>

definition processQuery_bucketPaths ::
  "'f MetricAgg list \<Rightarrow> (string \<times> string) list \<Rightarrow> (string \<times> 'f json) list" where
  "processQuery_bucketPaths metrics pipelineVariables =
     fold (\<lambda>(name, pipelineAgg) bucketPaths.
             (case Atoi pipelineAgg of
                Some _ \<Rightarrow>
                  (case find (\<lambda>pipelineMetric. MetricAgg.ID pipelineMetric = pipelineAgg) metrics of
                     Some appliedAgg \<Rightarrow>
                       (if MetricAgg.Type appliedAgg = countType
                        then AList.update name (JString ''_count'') bucketPaths
                        else AList.update name (JString pipelineAgg) bucketPaths)
                   | None \<Rightarrow> bucketPaths)
              | None \<Rightarrow> bucketPaths))
          pipelineVariables []"

text \<open>
  One turn of the metric loop (lines 138 to 202) for the metric \<open>m\<close>, with \<open>metrics\<close> the
  metric list of the query at that moment. It returns the metric, whose settings
  \<^verbatim>\<open>generateSettingsForDSL\<close> has rewritten in place when it was called, and the builder.
\<close>

definition processQuery_metric ::
  "('f, 'z) Deps_scheme \<Rightarrow> 'f MetricAgg list \<Rightarrow> 'f MetricAgg \<Rightarrow> 'f AggBuilder
   \<Rightarrow> 'f MetricAgg \<times> 'f AggBuilder" where
  "processQuery_metric e metrics m aggBuilder =
     (let m' = m\<lparr>MetricAgg.Settings := MetricAgg_normalizedSettings e m\<rparr>
      in if MetricAgg.Type m = countType then (m, aggBuilder)
         else if isPipelineAgg e (MetricAgg.Type m) then
           (if isPipelineAggWithMultipleBucketPaths e (MetricAgg.Type m) then
              (if length (PipelineVariables m) > 0 then
                 (let bucketPaths = processQuery_bucketPaths metrics (PipelineVariables m)
                  in (m', AggBuilder_append
                            (AggBuilder_Pipeline (MetricAgg.ID m) (MetricAgg.Type m)
                               (JObject bucketPaths) (MetricAgg_generateSettingsForDSL e m))
                            aggBuilder))
               else (m, aggBuilder))
            else
              (case Atoi (PipelineAggregate m) of
                 Some _ \<Rightarrow>
                   (case find (\<lambda>pipelineMetric. MetricAgg.ID pipelineMetric = PipelineAggregate m)
                           metrics of
                      Some appliedAgg \<Rightarrow>
                        (let bucketPath = (if MetricAgg.Type appliedAgg = countType
                                           then ''_count'' else PipelineAggregate m)
                         in (m', AggBuilder_append
                                   (AggBuilder_Pipeline (MetricAgg.ID m) (MetricAgg.Type m)
                                      (JString bucketPath) (MetricAgg_generateSettingsForDSL e m))
                                   aggBuilder))
                    | None \<Rightarrow> (m, aggBuilder))
               | None \<Rightarrow> (m, aggBuilder)))
         else (m', AggBuilder_append
                     (AggBuilder_Metric (MetricAgg.ID m) (MetricAgg.Type m) (MetricAgg.Field m)
                        (MetricAgg_generateSettingsForDSL e m))
                     aggBuilder))"

text \<open>The metric loop: \<open>visited\<close> are the metrics already visited, as the loop has left
  them, and the list of the query is \<open>visited\<close> followed by those still to visit.\<close>

fun processQuery_metrics ::
  "('f, 'z) Deps_scheme \<Rightarrow> 'f MetricAgg list \<Rightarrow> 'f MetricAgg list \<Rightarrow> 'f AggBuilder
   \<Rightarrow> 'f MetricAgg list \<times> 'f AggBuilder" where
  "processQuery_metrics e visited [] aggBuilder = (visited, aggBuilder)"
| "processQuery_metrics e visited (m # rest) aggBuilder =
     (case processQuery_metric e (visited @ m # rest) m aggBuilder of
        (m', aggBuilder') \<Rightarrow> processQuery_metrics e (visited @ [m']) rest aggBuilder')"

definition invalidQueryMessage :: string where
  "invalidQueryMessage = ''invalid query, missing metrics and aggregations''"

text \<open>The search request that \<^verbatim>\<open>processQuery\<close> opens (lines 71 to 75): size zero, a date
  range filter and the query string filter.\<close>

definition processQuery_search ::
  "('f, 'z) Deps_scheme \<Rightarrow> Interval \<Rightarrow> 'f Query \<Rightarrow> int \<Rightarrow> int \<Rightarrow> 'f SearchRequestBuilder" where
  "processQuery_search e interval q from to =
     \<lparr>srInterval = interval, srSize = 0, srSort = [], srDocValueFields = [],
      srHighlight = False,
      srFilters =
        [DateRangeFilter (GetTimeField e) to from DateFormatEpochMS,
         QueryString \<lparr>Query = RawQuery q, AnalyzeWildcard = True\<rparr>],
      srAggs = []\<rparr>"

text \<open>The bucket aggregation that a logs query without bucket aggregations gets (lines 100
  to 107).\<close>

definition logsDateHistogram :: "('f, 'z) Deps_scheme \<Rightarrow> 'f BucketAgg" where
  "logsDateHistogram e =
     \<lparr>BucketAgg.Field = GetTimeField e, BucketAgg.ID = ''1'',
      BucketAgg.Settings = NewFromAny [(''interval'', JString ''auto'')],
      BucketAgg.Type = dateHistType\<rparr>"

text \<open>
  \<^verbatim>\<open>processQuery\<close>. It returns the error, or the query, the multi-search builder and the
  response collection as the call leaves them. \<open>dataQueries\<close> is the field of the receiver.
\<close>

definition processQuery ::
  "('f, 'z) Deps_scheme \<Rightarrow> DataQuery list \<Rightarrow> 'f Query \<Rightarrow> 'f MultiSearchRequestBuilder
   \<Rightarrow> int \<Rightarrow> int \<Rightarrow> Responses
   \<Rightarrow> error + ('f Query \<times> 'f MultiSearchRequestBuilder \<times> Responses)" where
  "processQuery e dataQueries q ms from to result =
     (case GetMinInterval e (Query.Interval q) of
        Inl err \<Rightarrow> Inl (Err err)
      | Inr minInterval \<Rightarrow>
          (case dataQueries of
             [] \<Rightarrow> Inl IndexOutOfRange
           | dq0 # _ \<Rightarrow>
               (let interval = Calculate e (TimeRange dq0) minInterval (MaxDataPoints q);
                    defaultTimeField = GetTimeField e;
                    b = processQuery_search e interval q from to;
                    invalid = Inr (q, ms @ [b],
                                   result(Query.RefID q \<mapsto> \<lparr>Error = Some invalidQueryMessage\<rparr>))
                in if length (BucketAggs q) = 0 then
                     (case Metrics q of
                        [] \<Rightarrow> invalid
                      | metric # _ \<Rightarrow>
                          (if \<not> (MetricAgg.Type metric = ''raw_data''
                                  \<or> MetricAgg.Type metric = ''raw_document''
                                  \<or> MetricAgg.Type metric = ''logs'')
                           then invalid
                           else
                             (let b1 = b\<lparr>srSort := [(GetTimeField e, ''boolean''), (''_doc'', [])],
                                         srDocValueFields := [GetTimeField e],
                                         srSize := Json_MustInt e
                                           (Json_Get ''size'' (MetricAgg.Settings metric)) 500\<rparr>
                              in if MetricAgg.Type metric = ''logs'' then
                                   (let b2 = b1\<lparr>srSize := Json_MustInt e
                                                 (Json_Get ''limit'' (MetricAgg.Settings metric)) 500,
                                               srHighlight := True\<rparr>;
                                        aggBuilder = newAggBuilder;
                                        bucketAgg0 = logsDateHistogram e;
                                        bucketAgg = bucketAgg0\<lparr>BucketAgg.Settings :=
                                          NewFromAny (BucketAgg_generateSettingsForDSL bucketAgg0)\<rparr>;
                                        aggBuilder' = addDateHistogramAgg e aggBuilder bucketAgg
                                                        from to defaultTimeField
                                    in Inr (q\<lparr>BucketAggs := BucketAggs q @ [bucketAgg]\<rparr>,
                                            ms @ [b2\<lparr>srAggs := AggBuilder_root aggBuilder'\<rparr>],
                                            result))
                                 else Inr (q, ms @ [b1], result))))
                   else
                     (let (bucketAggs', aggBuilder1) =
                            processQuery_buckets e from to defaultTimeField (Metrics q)
                              (BucketAggs q) newAggBuilder;
                          (metrics', aggBuilder2) =
                            processQuery_metrics e [] (Metrics q) aggBuilder1
                      in Inr (q\<lparr>BucketAggs := bucketAggs', Metrics := metrics'\<rparr>,
                              ms @ [b\<lparr>srAggs := AggBuilder_root aggBuilder2\<rparr>],
                              result)))))"

subsection \<open>execute\<close>

text \<open>
  Modelled from the spec: \<^verbatim>\<open>parseQuery\<close> (not under src/): "produce an ordered sequence of
  Query values, or fail with a parse error if any query's shape is invalid". The parser of one
  data query is a parameter.
\<close>

fun parseQuery ::
  "(DataQuery \<Rightarrow> string + 'f Query) \<Rightarrow> DataQuery list \<Rightarrow> string + 'f Query list" where
  "parseQuery parseOne [] = Inr []"
| "parseQuery parseOne (d # ds) =
     (case parseOne d of
        Inl err \<Rightarrow> Inl err
      | Inr q \<Rightarrow>
          (case parseQuery parseOne ds of Inl err \<Rightarrow> Inl err | Inr qs \<Rightarrow> Inr (q # qs)))"

text \<open>
  The collaborators of \<^verbatim>\<open>execute\<close>, all outside src/ and taken as parameters: the parser
  of one data query, \<^verbatim>\<open>ms.Build\<close>, the client's \<^verbatim>\<open>ExecuteMultisearch\<close> and
  \<^verbatim>\<open>parseResponse\<close>.
\<close>

record ('f, 'rq, 'rs) Collaborators = "'f Deps" +
  parseOne :: "DataQuery \<Rightarrow> string + 'f Query"
  Build :: "'f MultiSearchRequestBuilder \<Rightarrow> string + 'rq"
  ExecuteMultisearch :: "'rq \<Rightarrow> string + 'rs"
  parseResponse :: "'rs \<Rightarrow> 'f Query list \<Rightarrow> string + Responses"

text \<open>The loop of \<^verbatim>\<open>execute\<close> (lines 43 to 47): it stops at the first error.\<close>

fun execute_queries ::
  "('f, 'z) Deps_scheme \<Rightarrow> DataQuery list \<Rightarrow> 'f Query list \<Rightarrow> 'f MultiSearchRequestBuilder
   \<Rightarrow> int \<Rightarrow> int \<Rightarrow> Responses
   \<Rightarrow> error + ('f Query list \<times> 'f MultiSearchRequestBuilder \<times> Responses)" where
  "execute_queries e dataQueries [] ms from to result = Inr ([], ms, result)"
| "execute_queries e dataQueries (q # qs) ms from to result =
     (case processQuery e dataQueries q ms from to result of
        Inl err \<Rightarrow> Inl err
      | Inr (q', ms', result') \<Rightarrow>
          (case execute_queries e dataQueries qs ms' from to result' of
             Inl err \<Rightarrow> Inl err
           | Inr (qs', ms'', result'') \<Rightarrow> Inr (q' # qs', ms'', result'')))"

definition execute ::
  "('f, 'rq, 'rs, 'z) Collaborators_scheme \<Rightarrow> DataQuery list \<Rightarrow> error + Responses" where
  "execute c dataQueries =
     (case parseQuery (parseOne c) dataQueries of
        Inl err \<Rightarrow> Inl (Err err)
      | Inr queries \<Rightarrow>
          (case dataQueries of
             [] \<Rightarrow> Inl IndexOutOfRange
           | dq0 # _ \<Rightarrow>
               (let from = From (TimeRange dq0) sdiv 1000000;
                    to = To (TimeRange dq0) sdiv 1000000
                in case execute_queries c dataQueries queries [] from to Map.empty of
                     Inl err \<Rightarrow> Inl err
                   | Inr (queries', ms, result) \<Rightarrow>
                       (case Build c ms of
                          Inl err \<Rightarrow> Inl (Err err)
                        | Inr req \<Rightarrow>
                            (case ExecuteMultisearch c req of
                               Inl err \<Rightarrow> Inl (Err err)
                             | Inr res \<Rightarrow>
                                 (case parseResponse c res queries' of
                                    Inl err \<Rightarrow> Inl (Err err)
                                  | Inr response \<Rightarrow> Inr response))))))"

subsection \<open>Vocabulary of the properties\<close>

text \<open>A settings value on which \<^verbatim>\<open>setFloatPath\<close> at \<open>p\<close> has nothing to do: the value at
  \<open>p\<close> is not a string that parses as a float.\<close>

definition unparsed :: "('f, 'z) Deps_scheme \<Rightarrow> string list \<Rightarrow> 'f json \<Rightarrow> bool" where
  "unparsed e p s =
     (case Json_String (Json_GetPath p s) of Some str \<Rightarrow> ParseFloat e str = None | None \<Rightarrow> True)"

text \<open>Definitions without a nested builder that are not buckets: what the metric loop and
  the ordering of a terms aggregation add.\<close>

definition leafOnly :: "'f aggDef list \<Rightarrow> bool" where
  "leafOnly ds = list_all (\<lambda>d. \<not> isBucketAggregation (aggregation d) \<and> children d = []) ds"

text \<open>An open ancestor as the bucket loop leaves it: a bucket, preceded in its builder by
  leaves only.\<close>

definition bucketFrame :: "'f aggDef list \<times> string \<times> string \<times> 'f aggregation \<Rightarrow> bool" where
  "bucketFrame fr = (leafOnly (fst fr) \<and> isBucketAggregation (snd (snd (snd fr))))"

definition frameKey :: "'f aggDef list \<times> string \<times> string \<times> 'f aggregation \<Rightarrow> string \<times> string" where
  "frameKey fr = (fst (snd fr), fst (snd (snd fr)))"

text \<open>The bucket aggregations for which the bucket loop adds a node: those of a known type,
  and of a filters aggregation only one that declares at least one filter.\<close>

definition emitsNode :: "('f, 'y) BucketAgg_scheme \<Rightarrow> bool" where
  "emitsNode b =
     (BucketAgg.Type b \<in> set [dateHistType, histogramType, filtersType, termsType, geohashGridType]
      \<and> (BucketAgg.Type b = filtersType
           \<longrightarrow> Json_MustArray (Json_Get ''filters'' (BucketAgg.Settings b)) \<noteq> []))"

text \<open>The bucket path a reference resolves to, in the words of the spec: the reference must
  be an integer-like ID matching a sibling metric; the path is the reserved sentinel when that
  sibling is a count metric, else the sibling's ID.\<close>

definition resolvedPath :: "('f, 'y) MetricAgg_scheme list \<Rightarrow> string \<Rightarrow> string option" where
  "resolvedPath metrics ref =
     (case Atoi ref of
        None \<Rightarrow> None
      | Some _ \<Rightarrow>
          (case find (\<lambda>sibling. MetricAgg.ID sibling = ref) metrics of
             None \<Rightarrow> None
           | Some sibling \<Rightarrow>
               Some (if MetricAgg.Type sibling = countType then ''_count''
                     else MetricAgg.ID sibling)))"

text \<open>What a turn of the metric loop may do to a metric: nothing, or the in-place
  normalisation of its settings.\<close>

definition settingsNormalized ::
  "('f, 'z) Deps_scheme \<Rightarrow> 'f MetricAgg \<Rightarrow> 'f MetricAgg \<Rightarrow> bool" where
  "settingsNormalized e m m' =
     (m' = m \<or> m' = m\<lparr>MetricAgg.Settings := MetricAgg_normalizedSettings e m\<rparr>)"

subsection \<open>Concrete inputs\<close>

text \<open>An instance of the parameters and a few queries, on which the model is run. In the
  instance a float is stood for by an integer, and the client rejects the interval \<open>bad\<close>.\<close>

definition exampleDataQuery :: DataQuery where
  "exampleDataQuery =
     \<lparr>RefID = ''A'', TimeRange = \<lparr>From = 5000000000, To = 9000000000\<rparr>\<rparr>"

definition exampleMetric ::
  "string \<Rightarrow> string \<Rightarrow> string \<Rightarrow> (string \<times> string) list \<Rightarrow> int json \<Rightarrow> int MetricAgg" where
  "exampleMetric i ty ref vars st =
     \<lparr>MetricAgg.Field = ''value'', MetricAgg.ID = i, PipelineAggregate = ref,
      PipelineVariables = vars, MetricAgg.Settings = st, MetricAgg.Type = ty\<rparr>"

definition exampleBucket :: "string \<Rightarrow> string \<Rightarrow> int json \<Rightarrow> int BucketAgg" where
  "exampleBucket i ty st =
     \<lparr>BucketAgg.Field = ''time'', BucketAgg.ID = i, BucketAgg.Settings = st,
      BucketAgg.Type = ty\<rparr>"

definition exampleQuery :: "int BucketAgg list \<Rightarrow> int MetricAgg list \<Rightarrow> string \<Rightarrow> int Query" where
  "exampleQuery bs ms iv =
     \<lparr>RawQuery = ''*'', BucketAggs = bs, Metrics = ms, Query.Interval = iv,
      Query.RefID = ''A'', MaxDataPoints = 100\<rparr>"

definition exampleDeps :: "(int, int, int) Collaborators" where
  "exampleDeps =
     \<lparr>ParseFloat = ParseInt, FloatToInt = (\<lambda>f. f),
      isPipelineAgg = (\<lambda>t. t = ''moving_avg'' \<or> t = ''derivative'' \<or> t = ''bucket_script''),
      isPipelineAggWithMultipleBucketPaths = (\<lambda>t. t = ''bucket_script''),
      isMetricAggregationWithInlineScriptSupport = (\<lambda>t. t = ''avg'' \<or> t = ''bucket_script''),
      GetMinInterval = (\<lambda>s. if s = ''bad'' then Inl ''invalid interval'' else Inr 1000),
      GetTimeField = ''@timestamp'',
      Calculate = (\<lambda>tr minInterval maxDataPoints. \<lparr>Text = ''1s'', Value = minInterval\<rparr>),
      parseOne = (\<lambda>d. Inr (exampleQuery [] [] ''1s'')),
      Build = (\<lambda>ms. Inr 0),
      ExecuteMultisearch = (\<lambda>req. Inr 0),
      parseResponse = (\<lambda>res queries. Inr Map.empty)\<rparr>"

section \<open>Properties\<close>

subsection \<open>Reading and writing settings\<close>

lemma Json_Get_SetPath_other:
  "k \<noteq> k' \<Longrightarrow> Json_Get k (Json_SetPath (k' # bs) v j) = Json_Get k j"
  by (cases j) (simp_all add: Json_Get_def Json_Map_def Json_MustMap_def update_conv')

lemma Json_Get_SetPath_same:
  "Json_Get k (Json_SetPath (k # bs) v j) = Json_SetPath bs v (Json_Get k j)"
  by (cases j) (simp_all add: Json_Get_def Json_Map_def Json_MustMap_def update_conv')

lemma Json_GetPath_SetPath_same: "Json_GetPath p (Json_SetPath p v j) = v"
  by (induction p arbitrary: j) (simp_all add: Json_Get_SetPath_same del: Json_SetPath.simps(2))

lemma Json_SetPath_twice:
  "Json_SetPath [k] v (Json_SetPath [k] v j) = Json_SetPath [k] v j"
  by (cases j) (simp_all add: Json_Get_def Json_Map_def Json_MustMap_def)

lemma Json_SetPath_is_object:
  "JObject (Json_MustMap (Json_SetPath (b # bs) v j)) = Json_SetPath (b # bs) v j"
  by (simp add: Json_MustMap_def Json_Map_def Let_def)

lemma Json_GetPath_nonobj:
  "Json_Map j = None \<Longrightarrow> p \<noteq> [] \<Longrightarrow> Json_GetPath p j = JNull"
proof (induction p arbitrary: j)
  case Nil then show ?case by simp
next
  case (Cons k p)
  have g: "Json_Get k j = JNull" using Cons.prems(1) by (simp add: Json_Get_def)
  show ?case
  proof (cases p)
    case Nil then show ?thesis using g by simp
  next
    case (Cons a list)
    then show ?thesis using Cons.IH [of JNull] g by (simp add: Json_Map_def)
  qed
qed

text \<open>paths that part at the first key, or at the second under the same first key\<close>

lemma GetPath_SetPath_head:
  "k \<noteq> k' \<Longrightarrow> Json_GetPath (k # p) (Json_SetPath (k' # q) v j) = Json_GetPath (k # p) j"
  by (simp add: Json_Get_SetPath_other del: Json_SetPath.simps(2))

lemma GetPath_SetPath_second:
  "a \<noteq> b \<Longrightarrow> Json_GetPath [k, a] (Json_SetPath [k, b] v j) = Json_GetPath [k, a] j"
  by (simp add: Json_Get_SetPath_other Json_Get_SetPath_same del: Json_SetPath.simps(2))

lemma setFloatPath_fixed: "unparsed e p s \<Longrightarrow> setFloatPath e s p = s"
  by (auto simp: unparsed_def setFloatPath_def split: option.splits)

lemma setFloatPath_unparsed: "unparsed e p (setFloatPath e s p)"
  by (auto simp: unparsed_def setFloatPath_def Json_GetPath_SetPath_same Json_String_def
      split: option.splits)

lemma setFloatPath_keeps_head:
  "k \<noteq> k' \<Longrightarrow> unparsed e (k # p) s \<Longrightarrow> unparsed e (k # p) (setFloatPath e s (k' # q))"
  unfolding unparsed_def setFloatPath_def
  by (simp add: GetPath_SetPath_head del: Json_SetPath.simps Json_GetPath.simps split: option.splits)

lemma setFloatPath_keeps_second:
  "a \<noteq> b \<Longrightarrow> unparsed e [k, a] s \<Longrightarrow> unparsed e [k, a] (setFloatPath e s [k, b])"
  unfolding unparsed_def setFloatPath_def
  by (simp add: GetPath_SetPath_second del: Json_SetPath.simps Json_GetPath.simps split: option.splits)

lemma MetricAgg_script_keeps:
  "k \<noteq> ''script'' \<Longrightarrow> unparsed e (k # p) s \<Longrightarrow> unparsed e (k # p) (MetricAgg_script e ty s)"
  unfolding unparsed_def MetricAgg_script_def Let_def
  by (simp add: GetPath_SetPath_head del: Json_SetPath.simps Json_GetPath.simps split: option.splits)

lemma MetricAgg_script_idem:
  "MetricAgg_script e ty (MetricAgg_script e ty s) = MetricAgg_script e ty s"
proof -
  have get: "Json_String (Json_GetPath [''script''] (Json_SetPath [''script''] (JString v) s)) = Some v"
    for v
    using Json_GetPath_SetPath_same [of "[''script'']" "JString v" s]
    by (simp add: Json_String_def del: Json_SetPath.simps Json_GetPath.simps)
  show ?thesis
    unfolding MetricAgg_script_def Let_def
    by (simp add: get Json_SetPath_twice del: Json_SetPath.simps Json_GetPath.simps
        split: option.splits)
qed

lemma MetricAgg_castFloats_fixed:
  assumes "unparsed e [''window''] s" "unparsed e [''predict''] s"
    "unparsed e [''settings'', ''alpha''] s" "unparsed e [''settings'', ''beta''] s"
    "unparsed e [''settings'', ''gamma''] s" "unparsed e [''settings'', ''period''] s"
    "unparsed e [''lag''] s"
  shows "MetricAgg_castFloats e ty s = s"
  using assms by (simp add: MetricAgg_castFloats_def setFloatPath_fixed)

lemma MetricAgg_castFloats_script_fixed:
  "MetricAgg_castFloats e ty (MetricAgg_script e ty (MetricAgg_castFloats e ty s))
     = MetricAgg_script e ty (MetricAgg_castFloats e ty s)"
proof (cases "ty = ''moving_avg''")
  case True
  define s1 where "s1 = setFloatPath e s [''window'']"
  define s2 where "s2 = setFloatPath e s1 [''predict'']"
  define s3 where "s3 = setFloatPath e s2 [''settings'', ''alpha'']"
  define s4 where "s4 = setFloatPath e s3 [''settings'', ''beta'']"
  define s5 where "s5 = setFloatPath e s4 [''settings'', ''gamma'']"
  define s6 where "s6 = setFloatPath e s5 [''settings'', ''period'']"
  define t where "t = MetricAgg_script e ty s6"
  have c: "MetricAgg_castFloats e ty s = s6"
    using True by (simp add: MetricAgg_castFloats_def s1_def s2_def s3_def s4_def s5_def s6_def)
  have w: "unparsed e [''window''] t"
    unfolding t_def s6_def s5_def s4_def s3_def s2_def s1_def
    by (intro MetricAgg_script_keeps setFloatPath_keeps_head setFloatPath_unparsed) simp_all
  have p: "unparsed e [''predict''] t"
    unfolding t_def s6_def s5_def s4_def s3_def s2_def
    by (intro MetricAgg_script_keeps setFloatPath_keeps_head setFloatPath_unparsed) simp_all
  have a: "unparsed e [''settings'', ''alpha''] t"
    unfolding t_def s6_def s5_def s4_def s3_def
    by (intro MetricAgg_script_keeps setFloatPath_keeps_second setFloatPath_unparsed) simp_all
  have b: "unparsed e [''settings'', ''beta''] t"
    unfolding t_def s6_def s5_def s4_def
    by (intro MetricAgg_script_keeps setFloatPath_keeps_second setFloatPath_unparsed) simp_all
  have g: "unparsed e [''settings'', ''gamma''] t"
    unfolding t_def s6_def s5_def
    by (intro MetricAgg_script_keeps setFloatPath_keeps_second setFloatPath_unparsed) simp_all
  have q: "unparsed e [''settings'', ''period''] t"
    unfolding t_def s6_def
    by (intro MetricAgg_script_keeps setFloatPath_unparsed) simp_all
  have "MetricAgg_castFloats e ty t = t"
    using True w p a b g q by (simp add: MetricAgg_castFloats_def setFloatPath_fixed)
  then show ?thesis by (simp add: c t_def)
next
  case False
  show ?thesis
  proof (cases "ty = ''serial_diff''")
    case True
    have "unparsed e [''lag''] (MetricAgg_script e ty (setFloatPath e s [''lag'']))"
      by (intro MetricAgg_script_keeps setFloatPath_unparsed) simp_all
    then show ?thesis using True by (simp add: MetricAgg_castFloats_def setFloatPath_fixed)
  next
    case F2: False
    then show ?thesis using False by (simp add: MetricAgg_castFloats_def)
  qed
qed

lemma MetricAgg_normalizedSettings_idem:
  "MetricAgg_normalizedSettings e (m\<lparr>MetricAgg.Settings := MetricAgg_normalizedSettings e m\<rparr>)
     = MetricAgg_normalizedSettings e m"
  by (simp add: MetricAgg_normalizedSettings_def MetricAgg_castFloats_script_fixed
      MetricAgg_script_idem)


lemma setFloatPath_object:
  "JObject (Json_MustMap s) = s \<Longrightarrow>
   JObject (Json_MustMap (setFloatPath e s (k # p))) = setFloatPath e s (k # p)"
  unfolding setFloatPath_def
  by (simp add: Json_SetPath_is_object del: Json_SetPath.simps Json_GetPath.simps
      split: option.splits)

lemma MetricAgg_castFloats_object:
  "JObject (Json_MustMap s) = s \<Longrightarrow>
   JObject (Json_MustMap (MetricAgg_castFloats e ty s)) = MetricAgg_castFloats e ty s"
  unfolding MetricAgg_castFloats_def Let_def
  by (simp add: setFloatPath_object del: Json_SetPath.simps Json_GetPath.simps)

lemma MetricAgg_script_object:
  "JObject (Json_MustMap s) = s \<Longrightarrow>
   JObject (Json_MustMap (MetricAgg_script e ty s)) = MetricAgg_script e ty s"
  unfolding MetricAgg_script_def Let_def
  by (simp add: Json_SetPath_is_object del: Json_SetPath.simps Json_GetPath.simps
      split: option.splits)

lemma setIntPath_object:
  "JObject (Json_MustMap s) = s \<Longrightarrow>
   JObject (Json_MustMap (setIntPath s (k # p))) = setIntPath s (k # p)"
  unfolding setIntPath_def
  by (simp add: Json_SetPath_is_object del: Json_SetPath.simps Json_GetPath.simps
      split: option.splits)

lemma setFloatPath_nonobj:
  "Json_Map s = None \<Longrightarrow> setFloatPath e s (k # p) = s"
  using Json_GetPath_nonobj [of s "k # p"]
  by (simp add: setFloatPath_def Json_String_def del: Json_GetPath.simps)

lemma setIntPath_nonobj:
  "Json_Map s = None \<Longrightarrow> setIntPath s (k # p) = s"
  using Json_GetPath_nonobj [of s "k # p"]
  by (simp add: setIntPath_def Json_String_def del: Json_GetPath.simps)

lemma MetricAgg_castFloats_nonobj:
  "Json_Map s = None \<Longrightarrow> MetricAgg_castFloats e ty s = s"
  by (simp add: MetricAgg_castFloats_def setFloatPath_nonobj)

lemma MetricAgg_script_nonobj:
  "Json_Map s = None \<Longrightarrow> MetricAgg_script e ty s = s"
  using Json_GetPath_nonobj [of s "[''script'']"] Json_GetPath_nonobj [of s "[''script'', ''inline'']"]
  by (simp add: MetricAgg_script_def Json_String_def del: Json_GetPath.simps)

lemma Json_GetPath_JNull: "Json_GetPath p (JNull :: 'f json) = JNull"
  by (induction p) (simp_all add: Json_Get_def Json_Map_def)

lemma Json_GetPath_empty_object: "Json_GetPath (k # p) (JObject [] :: 'f json) = JNull"
  by (simp add: Json_Get_def Json_Map_def Json_GetPath_JNull)

lemma setIntPath_empty_object: "setIntPath (JObject [] :: 'f json) (k # p) = JObject []"
  by (simp add: setIntPath_def Json_GetPath_empty_object Json_String_def del: Json_GetPath.simps)

lemma Json_object_cases:
  "Json_Map s = None \<or> JObject (Json_MustMap s) = s"
  by (cases s) (simp_all add: Json_Map_def Json_MustMap_def)

lemma setIntPath_idem: "setIntPath (setIntPath s p) p = setIntPath s p"
  by (auto simp: setIntPath_def Json_GetPath_SetPath_same Json_String_def split: option.splits)

lemma MetricAgg_returned_map_idem:
  "MetricAgg_generateSettingsForDSL e
     (m\<lparr>MetricAgg.Settings := NewFromAny (MetricAgg_generateSettingsForDSL e m)\<rparr>)
   = MetricAgg_generateSettingsForDSL e m"
proof -
  let ?n = "MetricAgg_normalizedSettings e m"
  consider (nonobj) "Json_Map (MetricAgg.Settings m) = None"
    | (obj) "JObject (Json_MustMap (MetricAgg.Settings m)) = MetricAgg.Settings m"
    using Json_object_cases [of "MetricAgg.Settings m"] by auto
  then show ?thesis
  proof cases
    case nonobj
    then have n: "?n = MetricAgg.Settings m"
      by (simp add: MetricAgg_normalizedSettings_def MetricAgg_castFloats_nonobj
          MetricAgg_script_nonobj)
    have mm: "Json_MustMap (MetricAgg.Settings m) = []"
      using nonobj by (simp add: Json_MustMap_def)
    have e0: "MetricAgg_script e ty (MetricAgg_castFloats e ty (JObject [])) = JObject []" for ty
    proof -
      have u: "unparsed e (k # p) (JObject [])" for k p
        by (simp add: unparsed_def Json_GetPath_empty_object Json_String_def
            del: Json_GetPath.simps)
      have c: "MetricAgg_castFloats e ty (JObject []) = JObject []"
        by (rule MetricAgg_castFloats_fixed) (rule u)+
      show ?thesis
        by (simp add: c MetricAgg_script_def Json_Get_def Json_Map_def Json_String_def)
    qed
    have g1: "MetricAgg_generateSettingsForDSL e m = []"
      by (simp add: MetricAgg_generateSettingsForDSL_def n mm)
    have g2: "MetricAgg_generateSettingsForDSL e (m\<lparr>MetricAgg.Settings := JObject []\<rparr>) = []"
      by (simp add: MetricAgg_generateSettingsForDSL_def MetricAgg_normalizedSettings_def e0
          Json_MustMap_def Json_Map_def)
    show ?thesis
      by (simp add: g1 g2 NewFromAny_def)
  next
    case obj
    have o: "JObject (Json_MustMap ?n) = ?n"
      unfolding MetricAgg_normalizedSettings_def
      by (intro MetricAgg_script_object MetricAgg_castFloats_object obj)
    show ?thesis
      using MetricAgg_normalizedSettings_idem [of e m]
      by (simp add: MetricAgg_generateSettingsForDSL_def NewFromAny_def o)
  qed
qed

lemma BucketAgg_returned_map_idem:
  "BucketAgg_generateSettingsForDSL
     (b\<lparr>BucketAgg.Settings := NewFromAny (BucketAgg_generateSettingsForDSL b)\<rparr>)
   = BucketAgg_generateSettingsForDSL b"
proof -
  let ?n = "BucketAgg_normalizedSettings b"
  consider (nonobj) "Json_Map (BucketAgg.Settings b) = None"
    | (obj) "JObject (Json_MustMap (BucketAgg.Settings b)) = BucketAgg.Settings b"
    using Json_object_cases [of "BucketAgg.Settings b"] by auto
  then show ?thesis
  proof cases
    case nonobj
    then have n: "?n = BucketAgg.Settings b"
      by (simp add: BucketAgg_normalizedSettings_def setIntPath_nonobj)
    have mm: "Json_MustMap (BucketAgg.Settings b) = []"
      using nonobj by (simp add: Json_MustMap_def)
    have g1: "BucketAgg_generateSettingsForDSL b = []"
      by (simp add: BucketAgg_generateSettingsForDSL_def n mm)
    have g2: "BucketAgg_generateSettingsForDSL (b\<lparr>BucketAgg.Settings := JObject []\<rparr>) = []"
      by (simp add: BucketAgg_generateSettingsForDSL_def BucketAgg_normalizedSettings_def
          setIntPath_empty_object Json_MustMap_def Json_Map_def)
    show ?thesis
      by (simp add: g1 g2 NewFromAny_def)
  next
    case obj
    have o: "JObject (Json_MustMap ?n) = ?n"
      unfolding BucketAgg_normalizedSettings_def by (intro setIntPath_object obj)
    show ?thesis
      by (simp add: BucketAgg_generateSettingsForDSL_def NewFromAny_def
          o [unfolded BucketAgg_normalizedSettings_def]
          BucketAgg_normalizedSettings_def setIntPath_idem del: Json_GetPath.simps)
  qed
qed

lemma ParseInt_5: "ParseInt ''5'' = Some 5"
  by (simp add: ParseInt_def isDigit_def digitsValue_def)

subsection \<open>Settings normalisation is idempotent\<close>

text \<open>
  Claim C7. Settings normalisation is idempotent. For a metric, the map returned by
  \<^verbatim>\<open>generateSettingsForDSL\<close> is the same when the call is repeated on that map, and the
  settings it rewrites in place are the same after a second call; likewise for a bucket
  aggregation; and each coercion of a single path (string to float, string to integer) is
  idempotent on its own. This holds for every settings value, every metric type, every float
  parser and every table of script-supporting types.
\<close>

theorem normalization_idempotent:
  "MetricAgg_generateSettingsForDSL e
     (m\<lparr>MetricAgg.Settings := NewFromAny (MetricAgg_generateSettingsForDSL e m)\<rparr>)
   = MetricAgg_generateSettingsForDSL e m
   \<and> MetricAgg_normalizedSettings e
       (m\<lparr>MetricAgg.Settings := MetricAgg_normalizedSettings e m\<rparr>)
     = MetricAgg_normalizedSettings e m
   \<and> BucketAgg_generateSettingsForDSL
       (b\<lparr>BucketAgg.Settings := NewFromAny (BucketAgg_generateSettingsForDSL b)\<rparr>)
     = BucketAgg_generateSettingsForDSL b
   \<and> setFloatPath e (setFloatPath e s p) p = setFloatPath e s p
   \<and> setIntPath (setIntPath s p) p = setIntPath s p"
proof -
  have "setFloatPath e (setFloatPath e s p) p = setFloatPath e s p"
    by (rule setFloatPath_fixed) (rule setFloatPath_unparsed)
  then show ?thesis
    by (simp add: MetricAgg_returned_map_idem MetricAgg_normalizedSettings_idem
        BucketAgg_returned_map_idem setIntPath_idem)
qed

text \<open>The normaliser at work: a moving average with the window given as a string.\<close>

theorem normalization_idempotent_witness:
  "MetricAgg_generateSettingsForDSL exampleDeps
     (exampleMetric ''2'' ''moving_avg'' ''1'' []
        (JObject [(''window'', JString ''5''), (''script'', JObject [(''inline'', JString ''_value'')])]))
   = [(''window'', JFloat 5), (''script'', JObject [(''inline'', JString ''_value'')])]
   \<and> MetricAgg_generateSettingsForDSL exampleDeps
     (exampleMetric ''2'' ''moving_avg'' ''1'' []
        (JObject [(''window'', JFloat 5), (''script'', JObject [(''inline'', JString ''_value'')])]))
   = [(''window'', JFloat 5), (''script'', JObject [(''inline'', JString ''_value'')])]"
proof -
  let ?m = "exampleMetric ''2'' ''moving_avg'' ''1'' []
        (JObject [(''window'', JString ''5''), (''script'', JObject [(''inline'', JString ''_value'')])])"
  have g: "MetricAgg_generateSettingsForDSL exampleDeps ?m
        = [(''window'', JFloat 5), (''script'', JObject [(''inline'', JString ''_value'')])]"
    by (simp add: MetricAgg_generateSettingsForDSL_def MetricAgg_normalizedSettings_def
        MetricAgg_castFloats_def MetricAgg_script_def exampleMetric_def exampleDeps_def
        setFloatPath_def Json_Get_def Json_Map_def Json_MustMap_def Json_String_def ParseInt_5)
  have u: "?m\<lparr>MetricAgg.Settings := NewFromAny (MetricAgg_generateSettingsForDSL exampleDeps ?m)\<rparr>
        = exampleMetric ''2'' ''moving_avg'' ''1'' []
        (JObject [(''window'', JFloat 5), (''script'', JObject [(''inline'', JString ''_value'')])])"
    by (simp add: g NewFromAny_def) (simp add: exampleMetric_def)
  have "MetricAgg_generateSettingsForDSL exampleDeps
          (?m\<lparr>MetricAgg.Settings := NewFromAny (MetricAgg_generateSettingsForDSL exampleDeps ?m)\<rparr>)
        = MetricAgg_generateSettingsForDSL exampleDeps ?m"
    using normalization_idempotent [of exampleDeps ?m] by (rule conjunct1)
  then have "MetricAgg_generateSettingsForDSL exampleDeps
      (exampleMetric ''2'' ''moving_avg'' ''1'' []
        (JObject [(''window'', JFloat 5), (''script'', JObject [(''inline'', JString ''_value'')])]))
        = MetricAgg_generateSettingsForDSL exampleDeps ?m"
    by (simp only: u)
  then show ?thesis
    by (simp only: g simp_thms)
qed

subsection \<open>The size of a terms aggregation\<close>


lemma setIntPath_Get_other:
  "k \<noteq> k' \<Longrightarrow> Json_Get k (setIntPath s [k']) = Json_Get k s"
  unfolding setIntPath_def
  by (simp add: Json_Get_SetPath_other del: Json_SetPath.simps Json_GetPath.simps
      split: option.splits)

lemma normalized_bucket_Get:
  assumes "k \<noteq> ''min_doc_count''"
  shows "Json_Get k (NewFromAny (BucketAgg_generateSettingsForDSL b)) = Json_Get k (BucketAgg.Settings b)"
proof -
  let ?s = "BucketAgg.Settings b"
  consider (nonobj) "Json_Map ?s = None" | (obj) "JObject (Json_MustMap ?s) = ?s"
    using Json_object_cases [of ?s] by auto
  then show ?thesis
  proof cases
    case nonobj
    then have "Json_MustMap (setIntPath ?s [''min_doc_count'']) = []"
      by (simp add: setIntPath_nonobj Json_MustMap_def)
    moreover have "Json_Get k ?s = JNull" using nonobj by (simp add: Json_Get_def)
    ultimately show ?thesis
      by (simp add: NewFromAny_def BucketAgg_generateSettingsForDSL_def
          BucketAgg_normalizedSettings_def Json_Get_def Json_Map_def)
  next
    case obj
    have "JObject (Json_MustMap (setIntPath ?s [''min_doc_count''])) = setIntPath ?s [''min_doc_count'']"
      by (rule setIntPath_object) (rule obj)
    then show ?thesis
      using assms
      by (simp add: NewFromAny_def BucketAgg_generateSettingsForDSL_def
          BucketAgg_normalizedSettings_def setIntPath_Get_other)
  qed
qed

lemma addTermsAgg_order_props:
  "addTermsAgg_order st metrics a = (a', inner) \<Longrightarrow>
   Size a' = Size a \<and> leafOnly inner \<and> countType \<notin> set (aggTypesOf inner)"
  by (auto simp: addTermsAgg_order_def Let_def leafOnly_def AggBuilder_Metric_def countType_def
      split: option.splits if_splits)

lemma addTermsAgg_nest:
  "\<exists>a inner. addTermsAgg e ab b metrics
      = AggBuilder_nest (BucketAgg.ID b) ''terms'' (AggTerms a) inner ab
    \<and> Size a = addTermsAgg_size e (BucketAgg.Settings b)
    \<and> leafOnly inner \<and> countType \<notin> set (aggTypesOf inner)"
proof -
  let ?st = "BucketAgg.Settings b"
  let ?a1 = "\<lparr>TermsAggregation.Field = BucketAgg.Field b, Size = 0, Order = [],
                TermsAggregation.MinDocCount = None, TermsAggregation.Missing = None\<rparr>
              \<lparr>Size := addTermsAgg_size e ?st\<rparr>"
  let ?a2 = "(case Json_Int e (Json_Get ''min_doc_count'' ?st) of
                  Some minDocCount \<Rightarrow> ?a1\<lparr>TermsAggregation.MinDocCount := Some minDocCount\<rparr>
                | None \<Rightarrow> ?a1)"
  let ?a3 = "(case Json_String (Json_Get ''missing'' ?st) of
                  Some missing \<Rightarrow> ?a2\<lparr>TermsAggregation.Missing := Some missing\<rparr>
                | None \<Rightarrow> ?a2)"
  obtain a4 inner where o: "addTermsAgg_order ?st metrics ?a3 = (a4, inner)"
    by (cases "addTermsAgg_order ?st metrics ?a3")
  have sz: "Size ?a3 = addTermsAgg_size e ?st"
    by (simp split: option.splits)
  have "addTermsAgg e ab b metrics = AggBuilder_nest (BucketAgg.ID b) ''terms'' (AggTerms a4) inner ab"
    unfolding addTermsAgg_def Let_def o by simp
  moreover have "Size a4 = addTermsAgg_size e ?st \<and> leafOnly inner \<and> countType \<notin> set (aggTypesOf inner)"
    using addTermsAgg_order_props [OF o] sz by simp
  ultimately show ?thesis by blast
qed

lemma addTermsAgg_size_cases:
  "addTermsAgg_size e st =
     (case Json_Get ''size'' st of
        JInt n \<Rightarrow> if n = 0 then 500 else n
      | JNumber s \<Rightarrow> (case ParseInt s of Some n \<Rightarrow> if n = 0 then 500 else n | None \<Rightarrow> 500)
      | JFloat f \<Rightarrow> if FloatToInt e f = 0 then 500 else FloatToInt e f
      | JString s \<Rightarrow> (case Atoi s of Some n \<Rightarrow> if n = 0 then 500 else n | None \<Rightarrow> 500)
      | _ \<Rightarrow> 500)"
  by (simp add: addTermsAgg_size_def Json_Int_def Json_String_def Let_def
      split: json.splits option.splits)


lemma termsType_distinct:
  "termsType \<noteq> dateHistType" "termsType \<noteq> histogramType" "termsType \<noteq> filtersType"
  by (simp_all add: termsType_def dateHistType_def histogramType_def filtersType_def)

lemma processQuery_bucket_terms:
  "BucketAgg.Type b = termsType \<Longrightarrow>
   snd (processQuery_bucket e from to tf metrics b ab)
     = addTermsAgg e ab (b\<lparr>BucketAgg.Settings := NewFromAny (BucketAgg_generateSettingsForDSL b)\<rparr>) metrics"
  by (simp add: processQuery_bucket_def Let_def termsType_distinct)

lemma addTermsAgg_size_normalized:
  "addTermsAgg_size e (NewFromAny (BucketAgg_generateSettingsForDSL b))
     = addTermsAgg_size e (BucketAgg.Settings b)"
  by (simp add: addTermsAgg_size_def normalized_bucket_Get cong: option.case_cong)

text \<open>
  Claim C6. For every bucket aggregation of type terms, the turn of the bucket loop adds a
  terms node whose size is read from the declared \<open>size\<close> setting: an integer (a Go integer,
  a decoded number, or a float truncated) or a numeric string gives its value, unless that
  value is zero; a missing setting, a string or number that does not parse, any other kind of
  value, and the value zero all give 500.
\<close>

theorem terms_size_default:
  "BucketAgg.Type b = termsType \<Longrightarrow>
   (\<exists>a inner.
      snd (processQuery_bucket e from to tf metrics b ab)
        = AggBuilder_nest (BucketAgg.ID b) ''terms'' (AggTerms a) inner ab
      \<and> Size a =
          (case Json_Get ''size'' (BucketAgg.Settings b) of
             JInt n \<Rightarrow> if n = 0 then 500 else n
           | JNumber s \<Rightarrow> (case ParseInt s of Some n \<Rightarrow> if n = 0 then 500 else n | None \<Rightarrow> 500)
           | JFloat f \<Rightarrow> if FloatToInt e f = 0 then 500 else FloatToInt e f
           | JString s \<Rightarrow> (case Atoi s of Some n \<Rightarrow> if n = 0 then 500 else n | None \<Rightarrow> 500)
           | _ \<Rightarrow> 500))"
proof -
  assume t: "BucketAgg.Type b = termsType"
  let ?b = "b\<lparr>BucketAgg.Settings := NewFromAny (BucketAgg_generateSettingsForDSL b)\<rparr>"
  obtain a inner where
    n: "addTermsAgg e ab ?b metrics = AggBuilder_nest (BucketAgg.ID ?b) ''terms'' (AggTerms a) inner ab"
    and sz: "Size a = addTermsAgg_size e (BucketAgg.Settings ?b)"
    using addTermsAgg_nest [of e ab ?b metrics] by blast
  have "snd (processQuery_bucket e from to tf metrics b ab) = addTermsAgg e ab ?b metrics"
    by (rule processQuery_bucket_terms [OF t])
  also have "\<dots> = AggBuilder_nest (BucketAgg.ID b) ''terms'' (AggTerms a) inner ab"
    using n by simp
  finally have "snd (processQuery_bucket e from to tf metrics b ab)
        = AggBuilder_nest (BucketAgg.ID b) ''terms'' (AggTerms a) inner ab" .
  moreover have "Size a = addTermsAgg_size e (BucketAgg.Settings b)"
    using sz by (simp add: addTermsAgg_size_normalized)
  ultimately show ?thesis
    unfolding addTermsAgg_size_cases by blast
qed


lemma Atoi_examples: "Atoi ''abc'' = None" "Atoi ''25'' = Some 25" "Atoi ''0'' = Some 0"
  by (simp_all add: Atoi_def ParseInt_def isDigit_def digitsValue_def)

text \<open>A size that does not parse gives 500; the numeric string \<open>25\<close> gives 25.\<close>

theorem terms_size_default_witness:
  "BucketAgg.Type (exampleBucket ''3'' ''terms'' (JObject [(''size'', JString ''abc'')])) = termsType
   \<and> (\<exists>a inner.
        snd (processQuery_bucket exampleDeps 5000 9000 ''@timestamp'' []
               (exampleBucket ''3'' ''terms'' (JObject [(''size'', JString ''abc'')])) newAggBuilder)
          = AggBuilder_nest ''3'' ''terms'' (AggTerms a) inner newAggBuilder
        \<and> Size a = 500)
   \<and> (\<exists>a inner.
        snd (processQuery_bucket exampleDeps 5000 9000 ''@timestamp'' []
               (exampleBucket ''3'' ''terms'' (JObject [(''size'', JString ''25'')])) newAggBuilder)
          = AggBuilder_nest ''3'' ''terms'' (AggTerms a) inner newAggBuilder
        \<and> Size a = 25)"
proof -
  have t: "BucketAgg.Type (exampleBucket ''3'' ''terms'' st) = termsType" for st :: "int json"
    by (simp add: exampleBucket_def termsType_def)
  have i: "BucketAgg.ID (exampleBucket ''3'' ''terms'' st) = ''3''" for st :: "int json"
    by (simp add: exampleBucket_def)
  have s: "BucketAgg.Settings (exampleBucket ''3'' ''terms'' st) = st" for st :: "int json"
    by (simp add: exampleBucket_def)
  show ?thesis
    using terms_size_default [OF t, of exampleDeps 5000 9000 "''@timestamp''" "[]"
        "JObject [(''size'', JString ''abc'')]" newAggBuilder]
      terms_size_default [OF t, of exampleDeps 5000 9000 "''@timestamp''" "[]"
        "JObject [(''size'', JString ''25'')]" newAggBuilder]
    by (simp add: t i s Json_Get_def Json_Map_def Atoi_examples)
qed

subsection \<open>One turn of the metric loop\<close>

lemma find_Some_holds: "find P xs = Some a \<Longrightarrow> P a \<and> a \<in> set xs"
  by (induction xs) (auto split: if_splits)

lemma bucketPaths_step:
  "(case Atoi pipelineAgg of
      Some _ \<Rightarrow>
        (case find (\<lambda>pipelineMetric. MetricAgg.ID pipelineMetric = pipelineAgg) metrics of
           Some appliedAgg \<Rightarrow>
             (if MetricAgg.Type appliedAgg = countType
              then AList.update name (JString ''_count'') bucketPaths
              else AList.update name (JString pipelineAgg) bucketPaths)
         | None \<Rightarrow> bucketPaths)
    | None \<Rightarrow> bucketPaths)
   = (case resolvedPath metrics pipelineAgg of
        Some p \<Rightarrow> AList.update name (JString p) bucketPaths
      | None \<Rightarrow> bucketPaths)"
  by (auto simp: resolvedPath_def split: option.splits dest: find_Some_holds)

lemma bucketPaths_fold:
  "distinct (map fst pvs) \<Longrightarrow>
   map_of (fold (\<lambda>(name, ref) bp.
                  (case resolvedPath metrics ref of
                     Some p \<Rightarrow> AList.update name (JString p) bp
                   | None \<Rightarrow> bp)) pvs acc) k
   = (case map_of pvs k of
        Some ref \<Rightarrow> (case resolvedPath metrics ref of
                       Some p \<Rightarrow> Some (JString p) | None \<Rightarrow> map_of acc k)
      | None \<Rightarrow> map_of acc k)"
proof (induction pvs arbitrary: acc)
  case Nil
  then show ?case by simp
next
  case (Cons a pvs)
  obtain n r where a: "a = (n, r)" by (cases a)
  have d: "distinct (map fst pvs)" and nin: "n \<notin> fst ` set pvs"
    using Cons.prems a by auto
  have none: "map_of pvs n = None"
    using nin by (simp add: map_of_eq_None_iff)
  show ?case
  proof (cases "k = n")
    case True
    then show ?thesis
      using Cons.IH [OF d] a none
      by (simp add: update_conv' split: option.splits)
  next
    case False
    then show ?thesis
      using Cons.IH [OF d] a
      by (simp add: update_conv' split: option.splits)
  qed
qed

lemma processQuery_bucketPaths_lookup:
  assumes "distinct (map fst pvs)"
  shows "map_of (processQuery_bucketPaths metrics pvs) k
         = (case map_of pvs k of
              None \<Rightarrow> None
            | Some ref \<Rightarrow> map_option JString (resolvedPath metrics ref))"
proof -
  have "processQuery_bucketPaths metrics pvs
        = fold (\<lambda>(name, ref) bp.
                  (case resolvedPath metrics ref of
                     Some p \<Rightarrow> AList.update name (JString p) bp
                   | None \<Rightarrow> bp)) pvs []"
    unfolding processQuery_bucketPaths_def bucketPaths_step ..
  then show ?thesis
    using bucketPaths_fold [OF assms, of metrics "[]" k]
    by (simp split: option.splits)
qed

lemma processQuery_metric_count:
  "MetricAgg.Type m = countType \<Longrightarrow> processQuery_metric e metrics m ab = (m, ab)"
  by (simp add: processQuery_metric_def)

lemma processQuery_metric_multi:
  assumes "MetricAgg.Type m \<noteq> countType" "isPipelineAgg e (MetricAgg.Type m)"
    "isPipelineAggWithMultipleBucketPaths e (MetricAgg.Type m)"
  shows "processQuery_metric e metrics m ab =
     (if PipelineVariables m = [] then (m, ab)
      else (m\<lparr>MetricAgg.Settings := MetricAgg_normalizedSettings e m\<rparr>,
            AggBuilder_append
              (AggBuilder_Pipeline (MetricAgg.ID m) (MetricAgg.Type m)
                 (JObject (processQuery_bucketPaths metrics (PipelineVariables m)))
                 (MetricAgg_generateSettingsForDSL e m)) ab))"
  using assms by (simp add: processQuery_metric_def Let_def)

lemma processQuery_metric_single:
  assumes "MetricAgg.Type m \<noteq> countType" "isPipelineAgg e (MetricAgg.Type m)"
    "\<not> isPipelineAggWithMultipleBucketPaths e (MetricAgg.Type m)"
  shows "processQuery_metric e metrics m ab =
     (case resolvedPath metrics (PipelineAggregate m) of
        None \<Rightarrow> (m, ab)
      | Some p \<Rightarrow>
          (m\<lparr>MetricAgg.Settings := MetricAgg_normalizedSettings e m\<rparr>,
           AggBuilder_append
             (AggBuilder_Pipeline (MetricAgg.ID m) (MetricAgg.Type m) (JString p)
                (MetricAgg_generateSettingsForDSL e m)) ab))"
  using assms
  by (auto simp: processQuery_metric_def Let_def resolvedPath_def
      split: option.splits dest: find_Some_holds)

lemma processQuery_metric_plain:
  assumes "MetricAgg.Type m \<noteq> countType" "\<not> isPipelineAgg e (MetricAgg.Type m)"
  shows "processQuery_metric e metrics m ab =
          (m\<lparr>MetricAgg.Settings := MetricAgg_normalizedSettings e m\<rparr>,
           AggBuilder_append
             (AggBuilder_Metric (MetricAgg.ID m) (MetricAgg.Type m) (MetricAgg.Field m)
                (MetricAgg_generateSettingsForDSL e m)) ab)"
  using assms by (simp add: processQuery_metric_def Let_def)

text \<open>Whatever the turn does, it leaves the open ancestors alone, appends at most one leaf
  whose type is the metric's, and at most normalises the metric's settings.\<close>

lemma processQuery_metric_shape:
  "\<exists>ds. processQuery_metric e metrics m ab = (fst (processQuery_metric e metrics m ab), (fst ab, snd ab @ ds))
     \<and> leafOnly ds \<and> countType \<notin> set (aggTypesOf ds)
     \<and> settingsNormalized e m (fst (processQuery_metric e metrics m ab))"
proof -
  have ab: "ab = (fst ab, snd ab @ [])" by simp
  have leaf1: "leafOnly [AggBuilder_Pipeline k ty bp st]" for k ty and bp :: "'a json" and st
    by (simp add: leafOnly_def AggBuilder_Pipeline_def)
  have leaf2: "leafOnly [AggBuilder_Metric k ty f st]" for k ty f and st :: "(string \<times> 'a json) list"
    by (simp add: leafOnly_def AggBuilder_Metric_def)
  have leaf0: "leafOnly ([] :: 'a aggDef list)" by (simp add: leafOnly_def)
  have ty1: "aggTypes (AggBuilder_Pipeline k ty bp st) = [ty]" for k ty and bp :: "'a json" and st
    by (simp add: AggBuilder_Pipeline_def)
  have ty2: "aggTypes (AggBuilder_Metric k ty f st) = [ty]" for k ty f and st :: "(string \<times> 'a json) list"
    by (simp add: AggBuilder_Metric_def)
  show ?thesis
  proof (cases "MetricAgg.Type m = countType")
    case True
    show ?thesis
      apply (rule exI [of _ "[]"])
      using True leaf0 by (simp add: processQuery_metric_count settingsNormalized_def)
  next
    case nc: False
    show ?thesis
    proof (cases "isPipelineAgg e (MetricAgg.Type m)")
      case False
      show ?thesis
        apply (rule exI [of _ "[AggBuilder_Metric (MetricAgg.ID m) (MetricAgg.Type m) (MetricAgg.Field m)
                (MetricAgg_generateSettingsForDSL e m)]"])
        using nc False leaf2
        by (simp add: processQuery_metric_plain settingsNormalized_def AggBuilder_append_def ty2)
    next
      case pa: True
      show ?thesis
      proof (cases "isPipelineAggWithMultipleBucketPaths e (MetricAgg.Type m)")
        case True
        show ?thesis
        proof (cases "PipelineVariables m = []")
          case e: True
          show ?thesis
            apply (rule exI [of _ "[]"])
            using nc pa True e leaf0
            by (simp add: processQuery_metric_multi settingsNormalized_def)
        next
          case ne: False
          show ?thesis
            apply (rule exI [of _ "[AggBuilder_Pipeline (MetricAgg.ID m) (MetricAgg.Type m)
                 (JObject (processQuery_bucketPaths metrics (PipelineVariables m)))
                 (MetricAgg_generateSettingsForDSL e m)]"])
            using nc pa True ne leaf1
            by (simp add: processQuery_metric_multi settingsNormalized_def AggBuilder_append_def ty1)
        qed
      next
        case False
        show ?thesis
        proof (cases "resolvedPath metrics (PipelineAggregate m)")
          case None
          show ?thesis
            apply (rule exI [of _ "[]"])
            using nc pa False None leaf0
            by (simp add: processQuery_metric_single settingsNormalized_def)
        next
          case (Some p)
          show ?thesis
            apply (rule exI [of _ "[AggBuilder_Pipeline (MetricAgg.ID m) (MetricAgg.Type m)
                 (JString p) (MetricAgg_generateSettingsForDSL e m)]"])
            using nc pa False Some leaf1
            by (simp add: processQuery_metric_single settingsNormalized_def AggBuilder_append_def ty1)
        qed
      qed
    qed
  qed
qed

subsection \<open>Closing the builder\<close>

lemma leafOnly_append: "leafOnly (xs @ ys) = (leafOnly xs \<and> leafOnly ys)"
  by (simp add: leafOnly_def)

lemma leafOnly_Nil: "leafOnly []"
  by (simp add: leafOnly_def)

lemma nestingDepths_append:
  "nestingDepths (xs @ ys) = max (nestingDepths xs) (nestingDepths ys)"
  by (induction xs) simp_all

lemma leafOnly_depth: "leafOnly ds \<Longrightarrow> nestingDepths ds = 0"
proof (induction ds)
  case Nil
  then show ?case by simp
next
  case (Cons d ds)
  then show ?case by (cases d) (simp add: leafOnly_def)
qed

lemma leafOnly_chain: "leafOnly ds \<Longrightarrow> bucketChains (ds @ ys) = bucketChains ys"
  by (induction ds) (simp_all add: leafOnly_def)

lemma aggTypesOf_append: "aggTypesOf (xs @ ys) = aggTypesOf xs @ aggTypesOf ys"
  by (induction xs) simp_all

lemma AggBuilder_close_append:
  "AggBuilder_close (xs @ ys) cur = AggBuilder_close ys (AggBuilder_close xs cur)"
  by (induction xs cur rule: AggBuilder_close.induct) simp_all

lemma nestingDepths_close:
  "list_all bucketFrame news \<Longrightarrow>
   nestingDepths (AggBuilder_close news cur) = length news + nestingDepths cur"
proof (induction news cur rule: AggBuilder_close.induct)
  case (1 cur)
  then show ?case by simp
next
  case (2 before k ty a outer cur)
  have fr: "bucketFrame (before, k, ty, a)" and r: "list_all bucketFrame outer"
    using "2.prems" by simp_all
  have l: "leafOnly before" and b: "isBucketAggregation a"
    using fr by (simp_all add: bucketFrame_def)
  show ?case
    using "2.IH" [OF r] l b
    by (simp add: nestingDepths_append leafOnly_depth)
qed

lemma bucketChains_close:
  "list_all bucketFrame news \<Longrightarrow>
   bucketChains (AggBuilder_close news cur) = map frameKey (rev news) @ bucketChains cur"
proof (induction news cur rule: AggBuilder_close.induct)
  case (1 cur)
  then show ?case by simp
next
  case (2 before k ty a outer cur)
  have fr: "bucketFrame (before, k, ty, a)" and r: "list_all bucketFrame outer"
    using "2.prems" by simp_all
  have l: "leafOnly before" and b: "isBucketAggregation a"
    using fr by (simp_all add: bucketFrame_def)
  show ?case
    using "2.IH" [OF r] l b
    by (simp add: leafOnly_chain frameKey_def)
qed

lemma aggTypesOf_close:
  "set (aggTypesOf (AggBuilder_close fs cur))
   = set (aggTypesOf cur)
     \<union> (\<Union>fr \<in> set fs. insert (fst (snd (snd fr))) (set (aggTypesOf (fst fr))))"
  by (induction fs cur rule: AggBuilder_close.induct) (auto simp: aggTypesOf_append)

subsection \<open>One turn of the bucket loop\<close>

lemma fold_update_nonempty:
  "acc \<noteq> [] \<Longrightarrow> fold (\<lambda>x fs. AList.update (g x) (h x) fs) xs acc \<noteq> []"
  by (induction xs arbitrary: acc) simp_all

lemma addFiltersAgg_filters_empty:
  "(addFiltersAgg_filters st = []) = (Json_MustArray (Json_Get ''filters'' st) = [])"
proof (cases "Json_MustArray (Json_Get ''filters'' st)")
  case Nil
  then show ?thesis by (simp add: addFiltersAgg_filters_def)
next
  case (Cons x xs)
  have "fold (\<lambda>filter filters.
             AList.update
               (if Json_MustString (Json_Get ''label'' filter) [] = []
                then Json_MustString (Json_Get ''query'' filter) []
                else Json_MustString (Json_Get ''label'' filter) [])
               \<lparr>Query = Json_MustString (Json_Get ''query'' filter) [], AnalyzeWildcard = True\<rparr>
               filters) xs acc \<noteq> []" if "acc \<noteq> []" for acc
    using that by (rule fold_update_nonempty)
  then show ?thesis
    using Cons by (simp add: addFiltersAgg_filters_def Let_def)
qed

lemma bucket_types_distinct:
  "dateHistType \<noteq> histogramType" "dateHistType \<noteq> filtersType" "dateHistType \<noteq> termsType"
  "dateHistType \<noteq> geohashGridType" "histogramType \<noteq> filtersType" "histogramType \<noteq> termsType"
  "histogramType \<noteq> geohashGridType" "filtersType \<noteq> termsType" "filtersType \<noteq> geohashGridType"
  "termsType \<noteq> geohashGridType"
  "dateHistType \<noteq> countType" "histogramType \<noteq> countType" "filtersType \<noteq> countType"
  "termsType \<noteq> countType" "geohashGridType \<noteq> countType"
  by (simp_all add: dateHistType_def histogramType_def filtersType_def termsType_def
      geohashGridType_def countType_def)

lemma addDateHistogramAgg_nest:
  "\<exists>a. addDateHistogramAgg e ab b from to tf
         = AggBuilder_nest (BucketAgg.ID b) ''date_histogram'' (AggDateHistogram a) [] ab"
  unfolding addDateHistogramAgg_def Let_def by (rule exI) (rule refl)

lemma addHistogramAgg_nest:
  "\<exists>a. addHistogramAgg e ab b
         = AggBuilder_nest (BucketAgg.ID b) ''histogram'' (AggHistogram a) [] ab"
  unfolding addHistogramAgg_def Let_def by (rule exI) (rule refl)

lemma addGeoHashGridAgg_nest:
  "\<exists>a. addGeoHashGridAgg e ab b
         = AggBuilder_nest (BucketAgg.ID b) ''geohash_grid'' (AggGeoHashGrid a) [] ab"
  unfolding addGeoHashGridAgg_def Let_def by (rule exI) (rule refl)

lemma addFiltersAgg_nest:
  "Json_MustArray (Json_Get ''filters'' (BucketAgg.Settings b)) \<noteq> [] \<Longrightarrow>
   \<exists>a. addFiltersAgg ab b = AggBuilder_nest (BucketAgg.ID b) ''filters'' (AggFilters a) [] ab"
  by (simp add: addFiltersAgg_def Let_def addFiltersAgg_filters_empty) blast

lemmas type_name_defs =
  dateHistType_def histogramType_def filtersType_def termsType_def geohashGridType_def
  countType_def

lemma processQuery_bucket_fst:
  "fst (processQuery_bucket e from to tf metrics b ab)
     = b\<lparr>BucketAgg.Settings := NewFromAny (BucketAgg_generateSettingsForDSL b)\<rparr>"
  by (simp add: processQuery_bucket_def Let_def)

lemma processQuery_bucket_skip:
  "\<not> emitsNode b \<Longrightarrow> snd (processQuery_bucket e from to tf metrics b ab) = ab"
  by (auto simp: processQuery_bucket_def Let_def emitsNode_def addFiltersAgg_def
      addFiltersAgg_filters_empty normalized_bucket_Get type_name_defs)

lemma processQuery_bucket_emit:
  assumes "emitsNode b"
  shows "\<exists>a inner. snd (processQuery_bucket e from to tf metrics b ab)
            = AggBuilder_nest (BucketAgg.ID b) (BucketAgg.Type b) a inner ab
          \<and> isBucketAggregation a \<and> leafOnly inner \<and> countType \<notin> set (aggTypesOf inner)"
proof -
  let ?b = "b\<lparr>BucketAgg.Settings := NewFromAny (BucketAgg_generateSettingsForDSL b)\<rparr>"
  consider (dh) "BucketAgg.Type b = dateHistType" | (h) "BucketAgg.Type b = histogramType"
    | (f) "BucketAgg.Type b = filtersType" | (t) "BucketAgg.Type b = termsType"
    | (g) "BucketAgg.Type b = geohashGridType"
    using assms by (auto simp: emitsNode_def)
  then show ?thesis
  proof cases
    case dh
    obtain a where "addDateHistogramAgg e ab ?b from to tf
         = AggBuilder_nest (BucketAgg.ID ?b) ''date_histogram'' (AggDateHistogram a) [] ab"
      using addDateHistogramAgg_nest [of e ab ?b "from" to tf] by blast
    then have "snd (processQuery_bucket e from to tf metrics b ab)
         = AggBuilder_nest (BucketAgg.ID b) (BucketAgg.Type b) (AggDateHistogram a) [] ab"
      using dh by (simp add: processQuery_bucket_def Let_def type_name_defs)
    then show ?thesis
      by (intro exI conjI) (assumption, simp_all add: leafOnly_Nil)
  next
    case h
    obtain a where "addHistogramAgg e ab ?b
         = AggBuilder_nest (BucketAgg.ID ?b) ''histogram'' (AggHistogram a) [] ab"
      using addHistogramAgg_nest [of e ab ?b] by blast
    then have "snd (processQuery_bucket e from to tf metrics b ab)
         = AggBuilder_nest (BucketAgg.ID b) (BucketAgg.Type b) (AggHistogram a) [] ab"
      using h by (simp add: processQuery_bucket_def Let_def type_name_defs)
    then show ?thesis
      by (intro exI conjI) (assumption, simp_all add: leafOnly_Nil)
  next
    case f
    then have "Json_MustArray (Json_Get ''filters'' (BucketAgg.Settings ?b)) \<noteq> []"
      using assms by (simp add: emitsNode_def normalized_bucket_Get)
    then obtain a where "addFiltersAgg ab ?b
         = AggBuilder_nest (BucketAgg.ID ?b) ''filters'' (AggFilters a) [] ab"
      using addFiltersAgg_nest [of ?b ab] by blast
    then have "snd (processQuery_bucket e from to tf metrics b ab)
         = AggBuilder_nest (BucketAgg.ID b) (BucketAgg.Type b) (AggFilters a) [] ab"
      using f by (simp add: processQuery_bucket_def Let_def type_name_defs)
    then show ?thesis
      by (intro exI conjI) (assumption, simp_all add: leafOnly_Nil)
  next
    case t
    obtain a inner where
      n: "addTermsAgg e ab ?b metrics
            = AggBuilder_nest (BucketAgg.ID ?b) ''terms'' (AggTerms a) inner ab"
      and l: "leafOnly inner" "countType \<notin> set (aggTypesOf inner)"
      using addTermsAgg_nest [of e ab ?b metrics] by blast
    have "snd (processQuery_bucket e from to tf metrics b ab) = addTermsAgg e ab ?b metrics"
      by (rule processQuery_bucket_terms [OF t])
    also have "\<dots> = AggBuilder_nest (BucketAgg.ID b) (BucketAgg.Type b) (AggTerms a) inner ab"
      using n t by (simp add: termsType_def)
    finally show ?thesis
      using l by (intro exI conjI) (assumption, simp_all)
  next
    case g
    obtain a where "addGeoHashGridAgg e ab ?b
         = AggBuilder_nest (BucketAgg.ID ?b) ''geohash_grid'' (AggGeoHashGrid a) [] ab"
      using addGeoHashGridAgg_nest [of e ab ?b] by blast
    then have "snd (processQuery_bucket e from to tf metrics b ab)
         = AggBuilder_nest (BucketAgg.ID b) (BucketAgg.Type b) (AggGeoHashGrid a) [] ab"
      using g by (simp add: processQuery_bucket_def Let_def type_name_defs)
    then show ?thesis
      by (intro exI conjI) (assumption, simp_all add: leafOnly_Nil)
  qed
qed

subsection \<open>The two loops\<close>

lemma processQuery_buckets_Cons:
  "processQuery_buckets e from to tf metrics (b # bs) ab =
     (fst (processQuery_bucket e from to tf metrics b ab)
        # fst (processQuery_buckets e from to tf metrics bs
                 (snd (processQuery_bucket e from to tf metrics b ab))),
      snd (processQuery_buckets e from to tf metrics bs
             (snd (processQuery_bucket e from to tf metrics b ab))))"
  by (simp add: case_prod_beta)

lemma processQuery_buckets_shape:
  assumes "leafOnly (snd ab)" "countType \<notin> set (aggTypesOf (snd ab))"
  shows "\<exists>news cur.
           processQuery_buckets e from to tf metrics bs ab
             = (map (\<lambda>b. b\<lparr>BucketAgg.Settings := NewFromAny (BucketAgg_generateSettingsForDSL b)\<rparr>) bs,
                (news @ fst ab, cur))
         \<and> list_all bucketFrame news
         \<and> map frameKey (rev news) = map (\<lambda>b. (BucketAgg.ID b, BucketAgg.Type b)) (filter emitsNode bs)
         \<and> leafOnly cur \<and> countType \<notin> set (aggTypesOf cur)
         \<and> (\<forall>fr \<in> set news. fst (snd (snd fr)) \<noteq> countType \<and> countType \<notin> set (aggTypesOf (fst fr)))"
  using assms
proof (induction bs arbitrary: ab)
  case Nil
  show ?case
    apply (rule exI [of _ "[]"])
    apply (rule exI [of _ "snd ab"])
    using Nil by simp
next
  case (Cons b bs)
  let ?pb = "processQuery_bucket e from to tf metrics b ab"
  show ?case
  proof (cases "emitsNode b")
    case False
    have s: "snd ?pb = ab" by (rule processQuery_bucket_skip [OF False])
    obtain news cur where
      r: "processQuery_buckets e from to tf metrics bs ab
             = (map (\<lambda>b. b\<lparr>BucketAgg.Settings := NewFromAny (BucketAgg_generateSettingsForDSL b)\<rparr>) bs,
                (news @ fst ab, cur))"
      and p: "list_all bucketFrame news"
        "map frameKey (rev news) = map (\<lambda>b. (BucketAgg.ID b, BucketAgg.Type b)) (filter emitsNode bs)"
        "leafOnly cur" "countType \<notin> set (aggTypesOf cur)"
        "\<forall>fr \<in> set news. fst (snd (snd fr)) \<noteq> countType \<and> countType \<notin> set (aggTypesOf (fst fr))"
      using Cons.IH [OF Cons.prems] by blast
    show ?thesis
      apply (rule exI [of _ news])
      apply (rule exI [of _ cur])
      using p False by (simp add: processQuery_buckets_Cons s r processQuery_bucket_fst
          del: processQuery_buckets.simps)
  next
    case True
    obtain a inner where
      s: "snd ?pb = AggBuilder_nest (BucketAgg.ID b) (BucketAgg.Type b) a inner ab"
      and a: "isBucketAggregation a" and l: "leafOnly inner"
      and c: "countType \<notin> set (aggTypesOf inner)"
      using processQuery_bucket_emit [OF True, of e "from" to tf metrics ab] by blast
    let ?fr = "(snd ab, BucketAgg.ID b, BucketAgg.Type b, a)"
    let ?ab1 = "(?fr # fst ab, inner)"
    have s1: "snd ?pb = ?ab1" using s by (simp add: AggBuilder_nest_def)
    have nc: "BucketAgg.Type b \<noteq> countType"
      using True by (auto simp: emitsNode_def type_name_defs)
    obtain news cur where
      r: "processQuery_buckets e from to tf metrics bs ?ab1
             = (map (\<lambda>b. b\<lparr>BucketAgg.Settings := NewFromAny (BucketAgg_generateSettingsForDSL b)\<rparr>) bs,
                (news @ fst ?ab1, cur))"
      and p: "list_all bucketFrame news"
        "map frameKey (rev news) = map (\<lambda>b. (BucketAgg.ID b, BucketAgg.Type b)) (filter emitsNode bs)"
        "leafOnly cur" "countType \<notin> set (aggTypesOf cur)"
        "\<forall>fr \<in> set news. fst (snd (snd fr)) \<noteq> countType \<and> countType \<notin> set (aggTypesOf (fst fr))"
      using Cons.IH [of ?ab1] l c by auto
    have fr: "bucketFrame ?fr"
      using Cons.prems(1) a by (simp add: bucketFrame_def)
    have fk: "frameKey ?fr = (BucketAgg.ID b, BucketAgg.Type b)"
      by (simp add: frameKey_def)
    show ?thesis
      apply (rule exI [of _ "news @ [?fr]"])
      apply (rule exI [of _ cur])
      using p True fr nc Cons.prems(2)
      by (simp add: processQuery_buckets_Cons s1 r processQuery_bucket_fst fk
          del: processQuery_buckets.simps)
  qed
qed

lemma processQuery_metrics_shape:
  "\<exists>rest' ds.
     processQuery_metrics e visited rest ab = (visited @ rest', (fst ab, snd ab @ ds))
     \<and> list_all2 (settingsNormalized e) rest rest'
     \<and> leafOnly ds \<and> countType \<notin> set (aggTypesOf ds)"
proof (induction rest arbitrary: visited ab)
  case Nil
  show ?case
    apply (rule exI [of _ "[]"])
    apply (rule exI [of _ "[]"])
    by (simp add: leafOnly_Nil)
next
  case (Cons m rest)
  let ?pm = "processQuery_metric e (visited @ m # rest) m ab"
  obtain ds where
    s: "?pm = (fst ?pm, (fst ab, snd ab @ ds))"
    and l: "leafOnly ds" "countType \<notin> set (aggTypesOf ds)"
    and n: "settingsNormalized e m (fst ?pm)"
    using processQuery_metric_shape [of e "visited @ m # rest" m ab] by blast
  obtain rest' ds' where
    r: "processQuery_metrics e (visited @ [fst ?pm]) rest (fst ab, snd ab @ ds)
          = ((visited @ [fst ?pm]) @ rest', (fst (fst ab, snd ab @ ds), snd (fst ab, snd ab @ ds) @ ds'))"
    and p: "list_all2 (settingsNormalized e) rest rest'" "leafOnly ds'"
      "countType \<notin> set (aggTypesOf ds')"
    using Cons.IH [of "visited @ [fst ?pm]" "(fst ab, snd ab @ ds)"] by blast
  have "processQuery_metrics e visited (m # rest) ab
        = processQuery_metrics e (visited @ [fst ?pm]) rest (fst ab, snd ab @ ds)"
    by (subst processQuery_metrics.simps, subst s) simp
  then have eq: "processQuery_metrics e visited (m # rest) ab
        = (visited @ (fst ?pm # rest'), (fst ab, snd ab @ (ds @ ds')))"
    using r by simp
  show ?case
    apply (rule exI [of _ "fst ?pm # rest'"])
    apply (rule exI [of _ "ds @ ds'"])
    using eq l p n by (simp add: leafOnly_append aggTypesOf_append)
qed

subsection \<open>The paths of processQuery\<close>

lemma processQuery_interval_error:
  "GetMinInterval e (Query.Interval q) = Inl err \<Longrightarrow>
   processQuery e dataQueries q ms from to result = Inl (Err err)"
  by (simp add: processQuery_def)

lemma processQuery_no_data_query:
  "GetMinInterval e (Query.Interval q) = Inr mi \<Longrightarrow>
   processQuery e [] q ms from to result = Inl IndexOutOfRange"
  by (simp add: processQuery_def)

lemma processQuery_aggregating:
  assumes "GetMinInterval e (Query.Interval q) = Inr mi" "BucketAggs q \<noteq> []"
  shows "processQuery e (dq0 # dqs) q ms from to result =
     Inr (q\<lparr>BucketAggs :=
              fst (processQuery_buckets e from to (GetTimeField e) (Metrics q) (BucketAggs q)
                     newAggBuilder),
            Metrics :=
              fst (processQuery_metrics e [] (Metrics q)
                     (snd (processQuery_buckets e from to (GetTimeField e) (Metrics q)
                             (BucketAggs q) newAggBuilder)))\<rparr>,
          ms @ [(processQuery_search e
                   (Calculate e (TimeRange dq0) mi (MaxDataPoints q)) q from to)
                 \<lparr>srAggs := AggBuilder_root
                    (snd (processQuery_metrics e [] (Metrics q)
                       (snd (processQuery_buckets e from to (GetTimeField e) (Metrics q)
                               (BucketAggs q) newAggBuilder))))\<rparr>],
          result)"
  using assms by (simp add: processQuery_def Let_def case_prod_beta)

lemma processQuery_invalid:
  assumes "GetMinInterval e (Query.Interval q) = Inr mi" "BucketAggs q = []"
    "Metrics q = [] \<or> MetricAgg.Type (hd (Metrics q)) \<notin> set [''raw_data'', ''raw_document'', ''logs'']"
  shows "processQuery e (dq0 # dqs) q ms from to result =
     Inr (q, ms @ [processQuery_search e (Calculate e (TimeRange dq0) mi (MaxDataPoints q)) q from to],
          result(Query.RefID q \<mapsto> \<lparr>Error = Some invalidQueryMessage\<rparr>))"
  using assms by (auto simp: processQuery_def Let_def split: list.splits)

lemma processQuery_documents:
  assumes "GetMinInterval e (Query.Interval q) = Inr mi" "BucketAggs q = []"
    "Metrics q = metric # rest"
    "MetricAgg.Type metric = ''raw_data'' \<or> MetricAgg.Type metric = ''raw_document''"
  shows "\<exists>b. processQuery e (dq0 # dqs) q ms from to result = Inr (q, ms @ [b], result)
             \<and> srAggs b = []"
  using assms by (auto simp: processQuery_def Let_def processQuery_search_def)

lemma logsDateHistogram_normalized:
  "(logsDateHistogram e)\<lparr>BucketAgg.Settings :=
      NewFromAny (BucketAgg_generateSettingsForDSL (logsDateHistogram e))\<rparr> = logsDateHistogram e"
  by (simp add: logsDateHistogram_def NewFromAny_def BucketAgg_generateSettingsForDSL_def
      BucketAgg_normalizedSettings_def setIntPath_def Json_Get_def Json_Map_def Json_String_def
      Json_MustMap_def)

lemma processQuery_logs:
  assumes "GetMinInterval e (Query.Interval q) = Inr mi" "BucketAggs q = []"
    "Metrics q = metric # rest" "MetricAgg.Type metric = ''logs''"
  shows "\<exists>b a. processQuery e (dq0 # dqs) q ms from to result
               = Inr (q\<lparr>BucketAggs := [logsDateHistogram e]\<rparr>, ms @ [b], result)
             \<and> srAggs b = [AggDef ''1'' ''date_histogram'' (AggDateHistogram a) []]"
proof -
  obtain a where a: "addDateHistogramAgg e newAggBuilder (logsDateHistogram e) from to (GetTimeField e)
         = AggBuilder_nest (BucketAgg.ID (logsDateHistogram e)) ''date_histogram''
             (AggDateHistogram a) [] newAggBuilder"
    using addDateHistogramAgg_nest [of e newAggBuilder "logsDateHistogram e" "from" to "GetTimeField e"]
    by blast
  have r: "AggBuilder_root (addDateHistogramAgg e newAggBuilder (logsDateHistogram e) from to
             (GetTimeField e)) = [AggDef ''1'' ''date_histogram'' (AggDateHistogram a) []]"
    unfolding a by (simp add: AggBuilder_root_def AggBuilder_nest_def newAggBuilder_def
        logsDateHistogram_def)
  show ?thesis
    using assms
    by (simp add: processQuery_def Let_def logsDateHistogram_normalized r)
qed

text \<open>With a data query at hand, \<^verbatim>\<open>processQuery\<close> fails only as the interval lookup does.\<close>

lemma processQuery_result:
  "(\<exists>err. GetMinInterval e (Query.Interval q) = Inl err
          \<and> processQuery e (dq0 # dqs) q ms from to result = Inl (Err err))
   \<or> (\<exists>q' b. processQuery e (dq0 # dqs) q ms from to result = Inr (q', ms @ [b], result)
         \<or> processQuery e (dq0 # dqs) q ms from to result
            = Inr (q', ms @ [b], result(Query.RefID q \<mapsto> \<lparr>Error = Some invalidQueryMessage\<rparr>)))"
proof (cases "GetMinInterval e (Query.Interval q)")
  case (Inl err)
  then show ?thesis by (simp add: processQuery_interval_error)
next
  case (Inr mi)
  show ?thesis
  proof (cases "BucketAggs q = []")
    case False
    show ?thesis
      using processQuery_aggregating [OF Inr False, of dq0 dqs ms "from" to result] by blast
  next
    case True
    show ?thesis
    proof (cases "Metrics q = [] \<or> MetricAgg.Type (hd (Metrics q)) \<notin> set [''raw_data'', ''raw_document'', ''logs'']")
      case inv: True
      show ?thesis
        using processQuery_invalid [OF Inr True inv, of dq0 dqs ms "from" to result] by blast
    next
      case False
      then obtain metric rest where m: "Metrics q = metric # rest"
        by (cases "Metrics q") auto
      show ?thesis
      proof (cases "MetricAgg.Type metric = ''logs''")
        case l: True
        show ?thesis
          using processQuery_logs [OF Inr True m l, of dq0 dqs ms "from" to result] by blast
      next
        case nl: False
        then have d: "MetricAgg.Type metric = ''raw_data'' \<or> MetricAgg.Type metric = ''raw_document''"
          using False m by auto
        show ?thesis
          using processQuery_documents [OF Inr True m d, of dq0 dqs ms "from" to result] by blast
      qed
    qed
  qed
qed

subsection \<open>Nesting of the bucket aggregations\<close>

lemma built_tree_measures:
  fixes e :: "('f, 'z) Deps_scheme"
  defines "norm \<equiv> (\<lambda>b :: 'f BucketAgg. b\<lparr>BucketAgg.Settings := NewFromAny (BucketAgg_generateSettingsForDSL b)\<rparr>)"
  shows "\<exists>news cur ds.
     processQuery_buckets e from to tf metrics bs newAggBuilder = (map norm bs, (news, cur))
     \<and> snd (processQuery_metrics e [] ms (news, cur)) = (news, cur @ ds)
     \<and> list_all bucketFrame news
     \<and> map frameKey (rev news) = map (\<lambda>b. (BucketAgg.ID b, BucketAgg.Type b)) (filter emitsNode bs)
     \<and> leafOnly cur \<and> leafOnly (cur @ ds)
     \<and> countType \<notin> set (aggTypesOf (cur @ ds))
     \<and> (\<forall>fr \<in> set news. fst (snd (snd fr)) \<noteq> countType \<and> countType \<notin> set (aggTypesOf (fst fr)))"
proof -
  have l0: "leafOnly (snd (newAggBuilder :: 'f AggBuilder))"
    and c0: "countType \<notin> set (aggTypesOf (snd (newAggBuilder :: 'f AggBuilder)))"
    by (simp_all add: newAggBuilder_def leafOnly_Nil)
  obtain news cur where
    r: "processQuery_buckets e from to tf metrics bs newAggBuilder
          = (map norm bs, (news @ fst (newAggBuilder :: 'f AggBuilder), cur))"
    and p: "list_all bucketFrame news"
      "map frameKey (rev news) = map (\<lambda>b. (BucketAgg.ID b, BucketAgg.Type b)) (filter emitsNode bs)"
      "leafOnly cur" "countType \<notin> set (aggTypesOf cur)"
      "\<forall>fr \<in> set news. fst (snd (snd fr)) \<noteq> countType \<and> countType \<notin> set (aggTypesOf (fst fr))"
    using processQuery_buckets_shape [OF l0 c0, of e "from" to tf metrics bs]
    unfolding norm_def by blast
  obtain rest' ds where
    m: "processQuery_metrics e [] ms (news, cur) = ([] @ rest', (fst (news, cur), snd (news, cur) @ ds))"
    and q: "leafOnly ds" "countType \<notin> set (aggTypesOf ds)"
    using processQuery_metrics_shape [of e "[]" ms "(news, cur)"] by blast
  show ?thesis
    apply (rule exI [of _ news])
    apply (rule exI [of _ cur])
    apply (rule exI [of _ ds])
    using r p q m by (simp add: newAggBuilder_def leafOnly_append aggTypesOf_append)
qed

text \<open>
  Claim C2, amended. The tree that the bucket loop builds nests one node for every bucket
  aggregation of the list that produces a node, the first of them at the root and each next
  one inside the previous, in declared order: its nesting depth is the number of those
  bucket aggregations and the chain of its buckets lists their IDs and types. A bucket
  aggregation produces a node when its type is one of the five known types and, for a filters
  aggregation, when it declares at least one filter. Attaching the metrics changes neither the
  depth nor the chain. When every bucket aggregation of the list produces a node, the depth is
  the length of the list.
\<close>

theorem bucket_nesting:
  "nestingDepths (AggBuilder_root (snd (processQuery_buckets e from to tf metrics bs newAggBuilder)))
     = length (filter emitsNode bs)
   \<and> bucketChains (AggBuilder_root (snd (processQuery_buckets e from to tf metrics bs newAggBuilder)))
     = map (\<lambda>b. (BucketAgg.ID b, BucketAgg.Type b)) (filter emitsNode bs)
   \<and> nestingDepths (AggBuilder_root (snd (processQuery_metrics e [] ms
        (snd (processQuery_buckets e from to tf metrics bs newAggBuilder)))))
     = length (filter emitsNode bs)
   \<and> bucketChains (AggBuilder_root (snd (processQuery_metrics e [] ms
        (snd (processQuery_buckets e from to tf metrics bs newAggBuilder)))))
     = map (\<lambda>b. (BucketAgg.ID b, BucketAgg.Type b)) (filter emitsNode bs)
   \<and> (list_all emitsNode bs \<longrightarrow>
        nestingDepths (AggBuilder_root (snd (processQuery_buckets e from to tf metrics bs newAggBuilder)))
          = length bs
        \<and> bucketChains (AggBuilder_root (snd (processQuery_buckets e from to tf metrics bs newAggBuilder)))
          = map (\<lambda>b. (BucketAgg.ID b, BucketAgg.Type b)) bs)"
proof -
  obtain news cur ds where
    r: "snd (processQuery_buckets e from to tf metrics bs newAggBuilder) = (news, cur)"
    and m: "snd (processQuery_metrics e [] ms (news, cur)) = (news, cur @ ds)"
    and f: "list_all bucketFrame news"
    and k: "map frameKey (rev news) = map (\<lambda>b. (BucketAgg.ID b, BucketAgg.Type b)) (filter emitsNode bs)"
    and l: "leafOnly cur" "leafOnly (cur @ ds)"
    using built_tree_measures [of e "from" to tf metrics bs ms] by auto
  have len: "length news = length (filter emitsNode bs)"
    using arg_cong [OF k, of length] by simp
  have ch: "bucketChains ds' = []" if "leafOnly ds'" for ds' :: "'a aggDef list"
    using leafOnly_chain [OF that, of "[]"] by simp
  have all: "filter emitsNode bs = bs" if "list_all emitsNode bs"
    using that by (simp add: list_all_iff)
  show ?thesis
    unfolding r m AggBuilder_root_def
    using l all
    by (simp add: nestingDepths_close [OF f] bucketChains_close [OF f] leafOnly_depth ch k len)
qed

text \<open>A terms aggregation ordered by a metric, with a date histogram inside.\<close>

theorem bucket_nesting_witness:
  "list_all emitsNode
     [exampleBucket ''2'' ''terms'' (JObject [(''orderBy'', JString ''5'')]),
      exampleBucket ''3'' ''date_histogram'' (JObject [])]
   \<and> nestingDepths (AggBuilder_root (snd (processQuery_buckets exampleDeps 5000 9000 ''@timestamp''
        [exampleMetric ''5'' ''avg'' [] [] (JObject [])]
        [exampleBucket ''2'' ''terms'' (JObject [(''orderBy'', JString ''5'')]),
         exampleBucket ''3'' ''date_histogram'' (JObject [])] newAggBuilder))) = 2
   \<and> bucketChains (AggBuilder_root (snd (processQuery_buckets exampleDeps 5000 9000 ''@timestamp''
        [exampleMetric ''5'' ''avg'' [] [] (JObject [])]
        [exampleBucket ''2'' ''terms'' (JObject [(''orderBy'', JString ''5'')]),
         exampleBucket ''3'' ''date_histogram'' (JObject [])] newAggBuilder)))
     = [(''2'', ''terms''), (''3'', ''date_histogram'')]"
proof -
  have e: "list_all emitsNode
     [exampleBucket ''2'' ''terms'' (JObject [(''orderBy'', JString ''5'')]),
      exampleBucket ''3'' ''date_histogram'' (JObject [] :: int json)]"
    by (simp add: emitsNode_def exampleBucket_def type_name_defs)
  show ?thesis
    using e bucket_nesting [of exampleDeps 5000 9000 "''@timestamp''"
        "[exampleMetric ''5'' ''avg'' [] [] (JObject [])]"
        "[exampleBucket ''2'' ''terms'' (JObject [(''orderBy'', JString ''5'')]),
          exampleBucket ''3'' ''date_histogram'' (JObject [])]" "[]"]
    by (simp add: exampleBucket_def)
qed

text \<open>Against the claim as it was stated: a filters aggregation that declares no filter
  produces no node, so a list of one bucket aggregation gives a tree of depth zero.\<close>

theorem bucket_nesting_counterexample:
  "nestingDepths (AggBuilder_root (snd (processQuery_buckets exampleDeps 5000 9000 ''@timestamp'' []
        [exampleBucket ''2'' ''filters'' (JObject [])] newAggBuilder)))
   \<noteq> length [exampleBucket ''2'' ''filters'' (JObject [])]"
proof -
  have "\<not> emitsNode (exampleBucket ''2'' ''filters'' (JObject [] :: int json))"
    by (simp add: emitsNode_def exampleBucket_def type_name_defs Json_Get_def Json_Map_def
        Json_MustArray_def)
  then show ?thesis
    by (simp add: case_prod_beta processQuery_bucket_skip AggBuilder_root_def newAggBuilder_def)
qed

subsection \<open>Count metrics\<close>

lemma processQuery_no_count_type:
  assumes "processQuery e dataQueries q ms from to result = Inr (q', ms', result')"
  shows "countType \<notin> set (aggTypesOf (srAggs (last ms')))"
proof (cases dataQueries)
  case Nil
  then show ?thesis
    using assms by (simp add: processQuery_def split: sum.splits)
next
  case (Cons dq0 dqs)
  show ?thesis
  proof (cases "GetMinInterval e (Query.Interval q)")
    case (Inl err)
    then show ?thesis
      using assms by (simp add: processQuery_interval_error)
  next
    case (Inr mi)
    show ?thesis
    proof (cases "BucketAggs q = []")
      case False
      obtain news cur ds where
        r: "processQuery_buckets e from to (GetTimeField e) (Metrics q) (BucketAggs q) newAggBuilder
              = (map (\<lambda>b. b\<lparr>BucketAgg.Settings := NewFromAny (BucketAgg_generateSettingsForDSL b)\<rparr>)
                   (BucketAggs q), (news, cur))"
        and m: "snd (processQuery_metrics e [] (Metrics q) (news, cur)) = (news, cur @ ds)"
        and c: "countType \<notin> set (aggTypesOf (cur @ ds))"
          "\<forall>fr \<in> set news. fst (snd (snd fr)) \<noteq> countType \<and> countType \<notin> set (aggTypesOf (fst fr))"
        using built_tree_measures [of e "from" to "GetTimeField e" "Metrics q" "BucketAggs q" "Metrics q"]
        by blast
      have "srAggs (last ms') = AggBuilder_root (news, cur @ ds)"
        using assms processQuery_aggregating [OF Inr False, of dq0 dqs ms "from" to result] Cons r m
        by auto
      then show ?thesis
        using c by (auto simp: AggBuilder_root_def aggTypesOf_close)
    next
      case True
      show ?thesis
      proof (cases "Metrics q = [] \<or> MetricAgg.Type (hd (Metrics q)) \<notin> set [''raw_data'', ''raw_document'', ''logs'']")
        case inv: True
        show ?thesis
          using assms processQuery_invalid [OF Inr True inv, of dq0 dqs ms "from" to result] Cons
          by (auto simp: processQuery_search_def)
      next
        case False
        then obtain metric rest where mt: "Metrics q = metric # rest"
          by (cases "Metrics q") auto
        show ?thesis
        proof (cases "MetricAgg.Type metric = ''logs''")
          case l: True
          show ?thesis
            using assms processQuery_logs [OF Inr True mt l, of dq0 dqs ms "from" to result] Cons
            by (auto simp: countType_def)
        next
          case nl: False
          then have d: "MetricAgg.Type metric = ''raw_data'' \<or> MetricAgg.Type metric = ''raw_document''"
            using False mt by auto
          show ?thesis
            using assms processQuery_documents [OF Inr True mt d, of dq0 dqs ms "from" to result] Cons
            by auto
        qed
      qed
    qed
  qed
qed

text \<open>
  Claim C4. A metric of type count never produces a node. The turn of the metric loop for
  such a metric returns the metric and the builder as they were, and in the request that
  \<^verbatim>\<open>processQuery\<close> builds for any query no aggregation definition, at any depth, has the
  type count (the ordering of a terms aggregation by a count metric adds no metric node
  either).
\<close>

theorem count_metric_no_node:
  "(MetricAgg.Type m = countType \<longrightarrow> processQuery_metric e metrics m ab = (m, ab))
   \<and> (processQuery e dataQueries q ms from to result = Inr (q', ms', result')
        \<longrightarrow> countType \<notin> set (aggTypesOf (srAggs (last ms'))))"
  using processQuery_metric_count [of m e metrics ab]
    processQuery_no_count_type [of e dataQueries q ms "from" to result q' ms' result']
  by blast


text \<open>A date histogram with a count metric and an average: only the average gets a node.\<close>

theorem count_metric_no_node_witness:
  "MetricAgg.Type (exampleMetric ''1'' ''count'' [] [] (JObject [])) = countType
   \<and> processQuery_metric exampleDeps
        [exampleMetric ''1'' ''count'' [] [] (JObject []), exampleMetric ''3'' ''avg'' [] [] (JObject [])]
        (exampleMetric ''1'' ''count'' [] [] (JObject [])) newAggBuilder
      = (exampleMetric ''1'' ''count'' [] [] (JObject []), newAggBuilder)
   \<and> \<not> isl (processQuery exampleDeps [exampleDataQuery]
        (exampleQuery [exampleBucket ''2'' ''date_histogram'' (JObject [])]
           [exampleMetric ''1'' ''count'' [] [] (JObject []), exampleMetric ''3'' ''avg'' [] [] (JObject [])]
           ''1s'') [] 5000 9000 Map.empty)
   \<and> countType \<notin> set (aggTypesOf (srAggs (last (fst (snd (projr
        (processQuery exampleDeps [exampleDataQuery]
          (exampleQuery [exampleBucket ''2'' ''date_histogram'' (JObject [])]
             [exampleMetric ''1'' ''count'' [] [] (JObject []), exampleMetric ''3'' ''avg'' [] [] (JObject [])]
             ''1s'') [] 5000 9000 Map.empty)))))))"
proof -
  let ?m = "exampleMetric ''1'' ''count'' [] [] (JObject [] :: int json)"
  let ?ms = "[?m, exampleMetric ''3'' ''avg'' [] [] (JObject [])]"
  let ?q = "exampleQuery [exampleBucket ''2'' ''date_histogram'' (JObject [])] ?ms ''1s''"
  let ?R = "processQuery exampleDeps [exampleDataQuery] ?q [] 5000 9000 Map.empty"
  have t: "MetricAgg.Type ?m = countType"
    by (simp add: exampleMetric_def countType_def)
  have g: "GetMinInterval exampleDeps (Query.Interval ?q) = Inr 1000"
    by (simp add: exampleDeps_def exampleQuery_def)
  have b: "BucketAggs ?q \<noteq> []"
    by (simp add: exampleQuery_def)
  obtain q' ms' result' where r: "?R = Inr (q', ms', result')"
    using processQuery_aggregating [OF g b, of exampleDataQuery "[]" "[]" 5000 9000 Map.empty]
    by blast
  show ?thesis
    using count_metric_no_node [of ?m exampleDeps ?ms newAggBuilder "[exampleDataQuery]" ?q "[]"
        5000 9000 Map.empty q' ms' result'] t r
    by simp
qed

subsection \<open>Pipeline metrics\<close>

lemma processQuery_no_error:
  assumes "GetMinInterval e (Query.Interval q) = Inr mi" "dataQueries \<noteq> []" "BucketAggs q \<noteq> []"
  shows "\<exists>q' b. processQuery e dataQueries q ms from to result = Inr (q', ms @ [b], result)"
proof -
  obtain dq0 dqs where d: "dataQueries = dq0 # dqs"
    using assms(2) by (cases dataQueries) auto
  show ?thesis
    unfolding d
    using processQuery_aggregating [OF assms(1) assms(3), of dq0 dqs ms "from" to result] by blast
qed

lemma Atoi_None_unresolved: "Atoi ref = None \<Longrightarrow> resolvedPath metrics ref = None"
  by (simp add: resolvedPath_def)

text \<open>
  Claim C5. A pipeline metric of the single-reference form whose \<^verbatim>\<open>PipelineAggregate\<close>
  does not parse as an integer is skipped entirely: its turn of the metric loop returns the
  metric and the builder as they were, so no node is emitted, and no error is raised or
  recorded: the turn has no way to fail, and \<^verbatim>\<open>processQuery\<close>, once it has reached the
  loops, returns without error and leaves the response collection as it was.
\<close>

theorem unparseable_reference_skipped:
  assumes "MetricAgg.Type m \<noteq> countType" "isPipelineAgg e (MetricAgg.Type m)"
    and "\<not> isPipelineAggWithMultipleBucketPaths e (MetricAgg.Type m)"
    and "Atoi (PipelineAggregate m) = None"
  shows "processQuery_metric e metrics m ab = (m, ab)
    \<and> (m \<in> set (Metrics q) \<and> BucketAggs q \<noteq> [] \<and> dataQueries \<noteq> []
         \<and> GetMinInterval e (Query.Interval q) = Inr mi
       \<longrightarrow> (\<exists>q' b. processQuery e dataQueries q ms from to result = Inr (q', ms @ [b], result)))"
  using processQuery_metric_single [OF assms(1-3), of metrics ab]
    Atoi_None_unresolved [OF assms(4), of metrics]
    processQuery_no_error [of e q mi dataQueries ms "from" to result]
  by auto

text \<open>A derivative that refers to the name \<open>abc\<close>.\<close>

theorem unparseable_reference_skipped_witness:
  "MetricAgg.Type (exampleMetric ''3'' ''derivative'' ''abc'' [] (JObject [])) \<noteq> countType
   \<and> isPipelineAgg exampleDeps (MetricAgg.Type (exampleMetric ''3'' ''derivative'' ''abc'' [] (JObject [])))
   \<and> \<not> isPipelineAggWithMultipleBucketPaths exampleDeps
         (MetricAgg.Type (exampleMetric ''3'' ''derivative'' ''abc'' [] (JObject [])))
   \<and> Atoi (PipelineAggregate (exampleMetric ''3'' ''derivative'' ''abc'' [] (JObject []))) = None
   \<and> processQuery_metric exampleDeps
        [exampleMetric ''1'' ''avg'' [] [] (JObject []),
         exampleMetric ''3'' ''derivative'' ''abc'' [] (JObject [])]
        (exampleMetric ''3'' ''derivative'' ''abc'' [] (JObject [])) newAggBuilder
      = (exampleMetric ''3'' ''derivative'' ''abc'' [] (JObject []), newAggBuilder)"
proof -
  let ?m = "exampleMetric ''3'' ''derivative'' ''abc'' [] (JObject [] :: int json)"
  have 1: "MetricAgg.Type ?m \<noteq> countType"
    by (simp add: exampleMetric_def countType_def)
  have 2: "isPipelineAgg exampleDeps (MetricAgg.Type ?m)"
    by (simp add: exampleMetric_def exampleDeps_def)
  have 3: "\<not> isPipelineAggWithMultipleBucketPaths exampleDeps (MetricAgg.Type ?m)"
    by (simp add: exampleMetric_def exampleDeps_def)
  have 4: "Atoi (PipelineAggregate ?m) = None"
    by (simp add: exampleMetric_def Atoi_examples)
  show ?thesis
    using 1 2 3 4
      unparseable_reference_skipped [OF 1 2 3 4,
        of "[exampleMetric ''1'' ''avg'' [] [] (JObject []), ?m]" newAggBuilder]
    by simp
qed


text \<open>
  Claim C1, amended. For a pipeline metric with several named references, the bucket-path
  map holds exactly the names whose reference resolves to a sibling metric, each with its
  path; a reference that does not resolve is left out, and nothing fails. When
  \<^verbatim>\<open>PipelineVariables\<close> is not empty, a pipeline node carrying that map is emitted, also when
  the map is empty; the entry is skipped without a node only when \<^verbatim>\<open>PipelineVariables\<close>
  itself is empty. (The names of a Go map are distinct.)
\<close>

theorem pipeline_variables_mapping:
  assumes "MetricAgg.Type m \<noteq> countType" "isPipelineAgg e (MetricAgg.Type m)"
    and "isPipelineAggWithMultipleBucketPaths e (MetricAgg.Type m)"
    and "distinct (map fst (PipelineVariables m))"
  shows "(\<forall>name. map_of (processQuery_bucketPaths metrics (PipelineVariables m)) name
            = (case map_of (PipelineVariables m) name of
                 None \<Rightarrow> None
               | Some ref \<Rightarrow> map_option JString (resolvedPath metrics ref)))
    \<and> (PipelineVariables m \<noteq> [] \<longrightarrow>
          processQuery_metric e metrics m ab
            = (m\<lparr>MetricAgg.Settings := MetricAgg_normalizedSettings e m\<rparr>,
               AggBuilder_append
                 (AggBuilder_Pipeline (MetricAgg.ID m) (MetricAgg.Type m)
                    (JObject (processQuery_bucketPaths metrics (PipelineVariables m)))
                    (MetricAgg_generateSettingsForDSL e m)) ab))
    \<and> (PipelineVariables m = [] \<longrightarrow> processQuery_metric e metrics m ab = (m, ab))"
  using processQuery_metric_multi [OF assms(1-3), of metrics ab]
    processQuery_bucketPaths_lookup [OF assms(4), of metrics]
  by simp

text \<open>A bucket script over a count metric, an average and a reference that names no
  metric: the map keeps the first two.\<close>

theorem pipeline_variables_mapping_witness:
  "MetricAgg.Type (exampleMetric ''7'' ''bucket_script'' []
       [(''a'', ''1''), (''b'', ''5''), (''c'', ''77'')] (JObject [])) \<noteq> countType
   \<and> isPipelineAgg exampleDeps ''bucket_script''
   \<and> isPipelineAggWithMultipleBucketPaths exampleDeps ''bucket_script''
   \<and> distinct (map fst [(''a'', ''1''), (''b'', ''5''), (''c'', ''77'')])
   \<and> snd (processQuery_metric exampleDeps
        [exampleMetric ''1'' ''count'' [] [] (JObject []),
         exampleMetric ''5'' ''avg'' [] [] (JObject []),
         exampleMetric ''7'' ''bucket_script'' []
           [(''a'', ''1''), (''b'', ''5''), (''c'', ''77'')] (JObject [])]
        (exampleMetric ''7'' ''bucket_script'' []
           [(''a'', ''1''), (''b'', ''5''), (''c'', ''77'')] (JObject [])) newAggBuilder)
      = AggBuilder_append
          (AggBuilder_Pipeline ''7'' ''bucket_script''
             (JObject [(''a'', JString ''_count''), (''b'', JString ''5'')]) []) newAggBuilder"
proof -
  let ?m = "exampleMetric ''7'' ''bucket_script'' []
       [(''a'', ''1''), (''b'', ''5''), (''c'', ''77'')] (JObject [] :: int json)"
  let ?ms = "[exampleMetric ''1'' ''count'' [] [] (JObject []),
         exampleMetric ''5'' ''avg'' [] [] (JObject []), ?m]"
  have 1: "MetricAgg.Type ?m \<noteq> countType"
    by (simp add: exampleMetric_def countType_def)
  have 2: "isPipelineAgg exampleDeps (MetricAgg.Type ?m)"
    by (simp add: exampleMetric_def exampleDeps_def)
  have 3: "isPipelineAggWithMultipleBucketPaths exampleDeps (MetricAgg.Type ?m)"
    by (simp add: exampleMetric_def exampleDeps_def)
  have 4: "distinct (map fst (PipelineVariables ?m))"
    by (simp add: exampleMetric_def)
  have a: "Atoi ''1'' = Some 1" "Atoi ''5'' = Some 5" "Atoi ''77'' = Some 77"
    by (simp_all add: Atoi_def ParseInt_def isDigit_def digitsValue_def)
  have bp: "processQuery_bucketPaths ?ms [(''a'', ''1''), (''b'', ''5''), (''c'', ''77'')]
            = [(''a'', JString ''_count''), (''b'', JString ''5'')]"
    by (simp add: processQuery_bucketPaths_def exampleMetric_def a countType_def)
  have g: "MetricAgg_generateSettingsForDSL exampleDeps ?m = []"
    by (simp add: MetricAgg_generateSettingsForDSL_def MetricAgg_normalizedSettings_def
        MetricAgg_castFloats_def MetricAgg_script_def exampleMetric_def exampleDeps_def
        Json_Get_def Json_Map_def Json_String_def Json_MustMap_def)
  have i: "MetricAgg.ID ?m = ''7''" "MetricAgg.Type ?m = ''bucket_script''"
    "PipelineVariables ?m = [(''a'', ''1''), (''b'', ''5''), (''c'', ''77'')]"
    by (simp_all add: exampleMetric_def)
  show ?thesis
    using 1 2 3 4 pipeline_variables_mapping [OF 1 2 3 4, of ?ms newAggBuilder]
    by (simp add: bp g i)
qed

text \<open>Against the claim as it was stated: the only reference names no metric, the map is
  empty, and the pipeline node is emitted all the same.\<close>

theorem pipeline_variables_mapping_counterexample:
  "PipelineVariables (exampleMetric ''7'' ''bucket_script'' [] [(''a'', ''77'')] (JObject [])) \<noteq> []
   \<and> processQuery_bucketPaths
        [exampleMetric ''1'' ''count'' [] [] (JObject []),
         exampleMetric ''7'' ''bucket_script'' [] [(''a'', ''77'')] (JObject [])]
        (PipelineVariables (exampleMetric ''7'' ''bucket_script'' [] [(''a'', ''77'')] (JObject [])))
      = []
   \<and> snd (processQuery_metric exampleDeps
        [exampleMetric ''1'' ''count'' [] [] (JObject []),
         exampleMetric ''7'' ''bucket_script'' [] [(''a'', ''77'')] (JObject [])]
        (exampleMetric ''7'' ''bucket_script'' [] [(''a'', ''77'')] (JObject [])) newAggBuilder)
      = ([], [AggDef ''7'' ''bucket_script''
                (AggPipeline \<lparr>BucketPath = JObject [], PipelineAggregation.Settings = []\<rparr>) []])"
proof -
  have a: "Atoi ''77'' = Some 77"
    by (simp add: Atoi_def ParseInt_def isDigit_def digitsValue_def)
  show ?thesis
    by (simp add: processQuery_metric_def processQuery_bucketPaths_def exampleMetric_def
        exampleDeps_def a countType_def newAggBuilder_def AggBuilder_append_def
        AggBuilder_Pipeline_def MetricAgg_generateSettingsForDSL_def
        MetricAgg_normalizedSettings_def MetricAgg_castFloats_def MetricAgg_script_def
        Json_Get_def Json_Map_def Json_String_def Json_MustMap_def)
qed

lemma Atoi_count_sentinel: "Atoi ''_count'' = None"
  by (simp add: Atoi_def ParseInt_def isDigit_def)

lemma resolvedPath_found:
  assumes "Atoi ref = Some n" "find (\<lambda>s. MetricAgg.ID s = ref) metrics = Some sibling"
  shows "resolvedPath metrics ref
         = Some (if MetricAgg.Type sibling = countType then ''_count'' else MetricAgg.ID sibling)"
  using assms by (simp add: resolvedPath_def)

text \<open>
  Claim C3. Let a pipeline metric refer, by an integer-like ID, to the sibling metric that
  the lookup finds under that ID. In the single-reference form the emitted node has the bucket
  path \<open>_count\<close> when the sibling is of type count, and the sibling's ID otherwise; in the
  form with several variables the emitted map gives that same path to the name of the
  reference. The path of a count sibling is never its raw ID.
\<close>

theorem count_sibling_sentinel:
  assumes "MetricAgg.Type m \<noteq> countType" "isPipelineAgg e (MetricAgg.Type m)"
    and "Atoi ref = Some n"
    and "find (\<lambda>s. MetricAgg.ID s = ref) metrics = Some sibling"
  shows "(\<not> isPipelineAggWithMultipleBucketPaths e (MetricAgg.Type m) \<and> PipelineAggregate m = ref
          \<longrightarrow> snd (processQuery_metric e metrics m ab)
              = AggBuilder_append
                  (AggBuilder_Pipeline (MetricAgg.ID m) (MetricAgg.Type m)
                     (JString (if MetricAgg.Type sibling = countType then ''_count''
                               else MetricAgg.ID sibling))
                     (MetricAgg_generateSettingsForDSL e m)) ab)
    \<and> (isPipelineAggWithMultipleBucketPaths e (MetricAgg.Type m)
        \<and> distinct (map fst (PipelineVariables m)) \<and> (name, ref) \<in> set (PipelineVariables m)
          \<longrightarrow> (\<exists>bucketPaths.
                 snd (processQuery_metric e metrics m ab)
                   = AggBuilder_append
                       (AggBuilder_Pipeline (MetricAgg.ID m) (MetricAgg.Type m)
                          (JObject bucketPaths) (MetricAgg_generateSettingsForDSL e m)) ab
                 \<and> map_of bucketPaths name
                     = Some (JString (if MetricAgg.Type sibling = countType then ''_count''
                                      else MetricAgg.ID sibling))))
    \<and> (MetricAgg.Type sibling = countType \<longrightarrow> ''_count'' \<noteq> MetricAgg.ID sibling)"
proof (intro conjI impI)
  note rp = resolvedPath_found [OF assms(3) assms(4)]
  {
    assume a: "\<not> isPipelineAggWithMultipleBucketPaths e (MetricAgg.Type m) \<and> PipelineAggregate m = ref"
    then show "snd (processQuery_metric e metrics m ab)
              = AggBuilder_append
                  (AggBuilder_Pipeline (MetricAgg.ID m) (MetricAgg.Type m)
                     (JString (if MetricAgg.Type sibling = countType then ''_count''
                               else MetricAgg.ID sibling))
                     (MetricAgg_generateSettingsForDSL e m)) ab"
      using processQuery_metric_single [OF assms(1) assms(2), of metrics ab] rp by simp
  }
  {
    assume a: "isPipelineAggWithMultipleBucketPaths e (MetricAgg.Type m)
        \<and> distinct (map fst (PipelineVariables m)) \<and> (name, ref) \<in> set (PipelineVariables m)"
    then have ne: "PipelineVariables m \<noteq> []" by auto
    have mo: "map_of (PipelineVariables m) name = Some ref"
      using a by simp
    have lk: "map_of (processQuery_bucketPaths metrics (PipelineVariables m)) name
              = Some (JString (if MetricAgg.Type sibling = countType then ''_count''
                               else MetricAgg.ID sibling))"
      using a processQuery_bucketPaths_lookup [of "PipelineVariables m" metrics name] mo rp
      by simp
    have "snd (processQuery_metric e metrics m ab)
          = AggBuilder_append
              (AggBuilder_Pipeline (MetricAgg.ID m) (MetricAgg.Type m)
                 (JObject (processQuery_bucketPaths metrics (PipelineVariables m)))
                 (MetricAgg_generateSettingsForDSL e m)) ab"
      using processQuery_metric_multi [OF assms(1) assms(2), of metrics ab] a ne by simp
    then show "\<exists>bucketPaths.
                 snd (processQuery_metric e metrics m ab)
                   = AggBuilder_append
                       (AggBuilder_Pipeline (MetricAgg.ID m) (MetricAgg.Type m)
                          (JObject bucketPaths) (MetricAgg_generateSettingsForDSL e m)) ab
                 \<and> map_of bucketPaths name
                     = Some (JString (if MetricAgg.Type sibling = countType then ''_count''
                                      else MetricAgg.ID sibling))"
      using lk by blast
  }
  {
    assume "MetricAgg.Type sibling = countType"
    have "MetricAgg.ID sibling = ref"
      using find_Some_holds [OF assms(4)] by simp
    then show "''_count'' \<noteq> MetricAgg.ID sibling"
      using assms(3) Atoi_count_sentinel by auto
  }
qed


text \<open>A moving average over the count metric, the scenario of the specification.\<close>

theorem count_sibling_sentinel_witness:
  "MetricAgg.Type (exampleMetric ''2'' ''moving_avg'' ''1'' [] (JObject [(''window'', JString ''5'')]))
     \<noteq> countType
   \<and> isPipelineAgg exampleDeps ''moving_avg''
   \<and> \<not> isPipelineAggWithMultipleBucketPaths exampleDeps ''moving_avg''
   \<and> Atoi ''1'' = Some 1
   \<and> find (\<lambda>s. MetricAgg.ID s = ''1'')
        [exampleMetric ''1'' ''count'' [] [] (JObject []),
         exampleMetric ''2'' ''moving_avg'' ''1'' [] (JObject [(''window'', JString ''5'')])]
      = Some (exampleMetric ''1'' ''count'' [] [] (JObject []))
   \<and> snd (processQuery_metric exampleDeps
        [exampleMetric ''1'' ''count'' [] [] (JObject []),
         exampleMetric ''2'' ''moving_avg'' ''1'' [] (JObject [(''window'', JString ''5'')])]
        (exampleMetric ''2'' ''moving_avg'' ''1'' [] (JObject [(''window'', JString ''5'')]))
        newAggBuilder)
      = AggBuilder_append
          (AggBuilder_Pipeline ''2'' ''moving_avg'' (JString ''_count'') [(''window'', JFloat 5)])
          newAggBuilder"
proof -
  let ?c = "exampleMetric ''1'' ''count'' [] [] (JObject [] :: int json)"
  let ?m = "exampleMetric ''2'' ''moving_avg'' ''1'' [] (JObject [(''window'', JString ''5'')] :: int json)"
  have 1: "MetricAgg.Type ?m \<noteq> countType"
    by (simp add: exampleMetric_def countType_def)
  have 2: "isPipelineAgg exampleDeps (MetricAgg.Type ?m)"
    by (simp add: exampleMetric_def exampleDeps_def)
  have 3: "Atoi ''1'' = Some 1"
    by (simp add: Atoi_def ParseInt_def isDigit_def digitsValue_def)
  have 4: "find (\<lambda>s. MetricAgg.ID s = ''1'') [?c, ?m] = Some ?c"
    by (simp add: exampleMetric_def)
  have 5: "\<not> isPipelineAggWithMultipleBucketPaths exampleDeps (MetricAgg.Type ?m)"
    by (simp add: exampleMetric_def exampleDeps_def)
  have g: "MetricAgg_generateSettingsForDSL exampleDeps ?m = [(''window'', JFloat 5)]"
    by (simp add: MetricAgg_generateSettingsForDSL_def MetricAgg_normalizedSettings_def
        MetricAgg_castFloats_def MetricAgg_script_def exampleMetric_def exampleDeps_def
        setFloatPath_def Json_Get_def Json_Map_def Json_MustMap_def Json_String_def ParseInt_5)
  have i: "MetricAgg.ID ?m = ''2''" "MetricAgg.Type ?m = ''moving_avg''"
    "PipelineAggregate ?m = ''1''" "MetricAgg.Type ?c = countType"
    by (simp_all add: exampleMetric_def countType_def)
  have "snd (processQuery_metric exampleDeps [?c, ?m] ?m newAggBuilder)
      = AggBuilder_append
          (AggBuilder_Pipeline (MetricAgg.ID ?m) (MetricAgg.Type ?m)
             (JString (if MetricAgg.Type ?c = countType then ''_count'' else MetricAgg.ID ?c))
             (MetricAgg_generateSettingsForDSL exampleDeps ?m)) newAggBuilder"
    using count_sibling_sentinel [OF 1 2 3 4, of newAggBuilder] 5 i(3) by blast
  then show ?thesis
    using 1 2 3 4 5 by (simp add: g i)
qed

subsection \<open>Queries without aggregations\<close>

text \<open>
  Claim C8, amended. Let a query have no bucket aggregations and either no metrics or a first
  metric whose type is none of \<open>raw_data\<close>, \<open>raw_document\<close> and \<open>logs\<close>. Provided the client's
  minimum-interval lookup for the query's interval succeeds (and the receiver holds a data
  query), \<^verbatim>\<open>processQuery\<close> records in the response collection, under the query's reference
  ID, the error "invalid query, missing metrics and aggregations", returns without error and
  leaves the query as it was, and the loop of \<^verbatim>\<open>execute\<close> goes on with the remaining
  queries from that state.
\<close>

theorem invalid_query_soft_error:
  assumes "BucketAggs q = []"
    and "Metrics q = [] \<or> MetricAgg.Type (hd (Metrics q)) \<notin> set [''raw_data'', ''raw_document'', ''logs'']"
    and "GetMinInterval e (Query.Interval q) = Inr mi"
    and "dataQueries \<noteq> []"
  shows "\<exists>b. processQuery e dataQueries q ms from to result
              = Inr (q, ms @ [b],
                     result(Query.RefID q \<mapsto>
                       \<lparr>Error = Some ''invalid query, missing metrics and aggregations''\<rparr>))
           \<and> execute_queries e dataQueries (q # qs) ms from to result
              = (case execute_queries e dataQueries qs (ms @ [b]) from to
                        (result(Query.RefID q \<mapsto>
                           \<lparr>Error = Some ''invalid query, missing metrics and aggregations''\<rparr>)) of
                   Inl err \<Rightarrow> Inl err
                 | Inr (qs', ms', result') \<Rightarrow> Inr (q # qs', ms', result'))"
proof -
  obtain dq0 dqs where d: "dataQueries = dq0 # dqs"
    using assms(4) by (cases dataQueries) auto
  let ?b = "processQuery_search e (Calculate e (TimeRange dq0) mi (MaxDataPoints q)) q from to"
  have p: "processQuery e dataQueries q ms from to result
            = Inr (q, ms @ [?b],
                   result(Query.RefID q \<mapsto>
                     \<lparr>Error = Some ''invalid query, missing metrics and aggregations''\<rparr>))"
    unfolding d
    using processQuery_invalid [OF assms(3) assms(1) assms(2), of dq0 dqs ms "from" to result]
    by (simp add: invalidQueryMessage_def)
  show ?thesis
    apply (rule exI [of _ ?b])
    using p by simp
qed

text \<open>A query with neither bucket aggregations nor metrics.\<close>

theorem invalid_query_soft_error_witness:
  "BucketAggs (exampleQuery [] [] ''1s'') = []
   \<and> Metrics (exampleQuery [] [] ''1s'') = []
   \<and> GetMinInterval exampleDeps (Query.Interval (exampleQuery [] [] ''1s'')) = Inr 1000
   \<and> [exampleDataQuery] \<noteq> []
   \<and> (\<exists>b. processQuery exampleDeps [exampleDataQuery] (exampleQuery [] [] ''1s'') [] 5000 9000 Map.empty
          = Inr (exampleQuery [] [] ''1s'', [b],
                 [''A'' \<mapsto> \<lparr>Error = Some ''invalid query, missing metrics and aggregations''\<rparr>]))"
proof -
  let ?q = "exampleQuery [] [] ''1s'' :: int Query"
  have 1: "BucketAggs ?q = []" by (simp add: exampleQuery_def)
  have 2: "Metrics ?q = [] \<or> MetricAgg.Type (hd (Metrics ?q)) \<notin> set [''raw_data'', ''raw_document'', ''logs'']"
    by (simp add: exampleQuery_def)
  have 3: "GetMinInterval exampleDeps (Query.Interval ?q) = Inr 1000"
    by (simp add: exampleQuery_def exampleDeps_def)
  have 4: "[exampleDataQuery] \<noteq> []" by simp
  have r: "Query.RefID ?q = ''A''" by (simp add: exampleQuery_def)
  obtain b where "processQuery exampleDeps [exampleDataQuery] ?q [] 5000 9000 Map.empty
          = Inr (?q, [] @ [b],
                 Map.empty(Query.RefID ?q \<mapsto>
                   \<lparr>Error = Some ''invalid query, missing metrics and aggregations''\<rparr>))"
    using invalid_query_soft_error [OF 1 2 3 4, of "[]" 5000 9000 Map.empty "[]"] by blast
  then have "\<exists>b. processQuery exampleDeps [exampleDataQuery] ?q [] 5000 9000 Map.empty
          = Inr (?q, [b],
                 [''A'' \<mapsto> \<lparr>Error = Some ''invalid query, missing metrics and aggregations''\<rparr>])"
    unfolding r by auto
  then show ?thesis
    using 1 3 by (simp add: exampleQuery_def)
qed

text \<open>Against the claim as it was stated: when the interval lookup fails, the same query
  makes \<^verbatim>\<open>processQuery\<close> return that error, and the loop stops before the next query.\<close>

theorem invalid_query_soft_error_counterexample:
  "BucketAggs (exampleQuery [] [] ''bad'') = []
   \<and> Metrics (exampleQuery [] [] ''bad'') = []
   \<and> processQuery exampleDeps [exampleDataQuery] (exampleQuery [] [] ''bad'') [] 5000 9000 Map.empty
      = Inl (Err ''invalid interval'')
   \<and> execute_queries exampleDeps [exampleDataQuery]
        [exampleQuery [] [] ''bad'', exampleQuery [] [] ''1s''] [] 5000 9000 Map.empty
      = Inl (Err ''invalid interval'')"
proof -
  have g: "GetMinInterval exampleDeps (Query.Interval (exampleQuery [] [] ''bad'')) = Inl ''invalid interval''"
    by (simp add: exampleQuery_def exampleDeps_def)
  show ?thesis
    by (simp add: processQuery_interval_error [OF g]) (simp add: exampleQuery_def)
qed


subsection \<open>What processQuery changes in the query\<close>

lemma settingsNormalized_same: "settingsNormalized e m m"
  by (simp add: settingsNormalized_def)

lemma settingsNormalized_refl: "list_all2 (settingsNormalized e) ms ms"
  by (simp add: list_all2_same settingsNormalized_same)

text \<open>
  Claim C9, amended. Building the search request of a query changes the query only as
  follows. Every field other than the two lists keeps its value. Each metric is left as it was
  or has its settings replaced by their normalised form, nothing else, and the metric list
  keeps its length and order. When the query has bucket aggregations, each of them has its
  settings replaced by their normalised form, nothing else, and the list keeps its length and
  order. When the query has none, the list stays empty, except for a logs query, which gets
  one synthesized date-histogram bucket aggregation appended.
\<close>

theorem query_frame:
  assumes "processQuery e dataQueries q ms from to result = Inr (q', ms', result')"
  shows "q' = q\<lparr>BucketAggs := BucketAggs q', Metrics := Metrics q'\<rparr>
    \<and> list_all2 (settingsNormalized e) (Metrics q) (Metrics q')
    \<and> (BucketAggs q \<noteq> [] \<longrightarrow>
         BucketAggs q'
           = map (\<lambda>b. b\<lparr>BucketAgg.Settings := NewFromAny (BucketAgg_generateSettingsForDSL b)\<rparr>)
               (BucketAggs q))
    \<and> (BucketAggs q = [] \<longrightarrow>
         BucketAggs q' = []
         \<or> (Metrics q \<noteq> [] \<and> MetricAgg.Type (hd (Metrics q)) = ''logs''
            \<and> BucketAggs q' = [logsDateHistogram e]))"
proof (cases dataQueries)
  case Nil
  then show ?thesis
    using assms by (simp add: processQuery_def split: sum.splits)
next
  case (Cons dq0 dqs)
  show ?thesis
  proof (cases "GetMinInterval e (Query.Interval q)")
    case (Inl err)
    then show ?thesis
      using assms by (simp add: processQuery_interval_error)
  next
    case (Inr mi)
    show ?thesis
    proof (cases "BucketAggs q = []")
      case False
      let ?B = "processQuery_buckets e from to (GetTimeField e) (Metrics q) (BucketAggs q) newAggBuilder"
      obtain news cur ds where
        r: "?B = (map (\<lambda>b. b\<lparr>BucketAgg.Settings := NewFromAny (BucketAgg_generateSettingsForDSL b)\<rparr>)
                   (BucketAggs q), (news, cur))"
        using built_tree_measures [of e "from" to "GetTimeField e" "Metrics q" "BucketAggs q" "Metrics q"]
        by blast
      obtain rest' ds' where
        m: "processQuery_metrics e [] (Metrics q) (snd ?B)
              = ([] @ rest', (fst (snd ?B), snd (snd ?B) @ ds'))"
        and n: "list_all2 (settingsNormalized e) (Metrics q) rest'"
        using processQuery_metrics_shape [of e "[]" "Metrics q" "snd ?B"] by blast
      have "q' = q\<lparr>BucketAggs := fst ?B,
                    Metrics := fst (processQuery_metrics e [] (Metrics q) (snd ?B))\<rparr>"
        using assms processQuery_aggregating [OF Inr False, of dq0 dqs ms "from" to result] Cons
        by simp
      then have "q' = q\<lparr>BucketAggs :=
                    map (\<lambda>b. b\<lparr>BucketAgg.Settings := NewFromAny (BucketAgg_generateSettingsForDSL b)\<rparr>)
                      (BucketAggs q),
                  Metrics := rest'\<rparr>"
        by (simp add: m) (simp add: r)
      then show ?thesis
        using n False by simp
    next
      case True
      show ?thesis
      proof (cases "Metrics q = [] \<or> MetricAgg.Type (hd (Metrics q)) \<notin> set [''raw_data'', ''raw_document'', ''logs'']")
        case inv: True
        have "q' = q"
          using assms processQuery_invalid [OF Inr True inv, of dq0 dqs ms "from" to result] Cons
          by simp
        then show ?thesis
          using True by (simp add: settingsNormalized_refl)
      next
        case False
        then obtain metric rest where mt: "Metrics q = metric # rest"
          by (cases "Metrics q") auto
        show ?thesis
        proof (cases "MetricAgg.Type metric = ''logs''")
          case l: True
          have "q' = q\<lparr>BucketAggs := [logsDateHistogram e]\<rparr>"
            using assms processQuery_logs [OF Inr True mt l, of dq0 dqs ms "from" to result] Cons
            by auto
          then show ?thesis
            using True mt l by (simp add: settingsNormalized_refl settingsNormalized_same)
        next
          case nl: False
          then have d: "MetricAgg.Type metric = ''raw_data'' \<or> MetricAgg.Type metric = ''raw_document''"
            using False mt by auto
          have "q' = q"
            using assms processQuery_documents [OF Inr True mt d, of dq0 dqs ms "from" to result] Cons
            by auto
          then show ?thesis
            using True by (simp add: settingsNormalized_refl)
        qed
      qed
    qed
  qed
qed


text \<open>A date histogram whose \<open>min_doc_count\<close> is a string: the bucket aggregation comes
  back with the integer, and the rest of the query is as it was.\<close>

theorem query_frame_witness:
  "\<not> isl (processQuery exampleDeps [exampleDataQuery]
       (exampleQuery [exampleBucket ''2'' ''date_histogram'' (JObject [(''min_doc_count'', JString ''5'')])]
          [exampleMetric ''1'' ''count'' [] [] (JObject [])] ''1s'') [] 5000 9000 Map.empty)
   \<and> BucketAggs (fst (projr (processQuery exampleDeps [exampleDataQuery]
       (exampleQuery [exampleBucket ''2'' ''date_histogram'' (JObject [(''min_doc_count'', JString ''5'')])]
          [exampleMetric ''1'' ''count'' [] [] (JObject [])] ''1s'') [] 5000 9000 Map.empty)))
     = [exampleBucket ''2'' ''date_histogram'' (JObject [(''min_doc_count'', JInt 5)])]
   \<and> Query.RefID (fst (projr (processQuery exampleDeps [exampleDataQuery]
       (exampleQuery [exampleBucket ''2'' ''date_histogram'' (JObject [(''min_doc_count'', JString ''5'')])]
          [exampleMetric ''1'' ''count'' [] [] (JObject [])] ''1s'') [] 5000 9000 Map.empty)))
     = ''A''"
proof -
  let ?b = "exampleBucket ''2'' ''date_histogram'' (JObject [(''min_doc_count'', JString ''5'')]) :: int BucketAgg"
  let ?q = "exampleQuery [?b] [exampleMetric ''1'' ''count'' [] [] (JObject [])] ''1s''"
  let ?R = "processQuery exampleDeps [exampleDataQuery] ?q [] 5000 9000 Map.empty"
  have g: "GetMinInterval exampleDeps (Query.Interval ?q) = Inr 1000"
    by (simp add: exampleDeps_def exampleQuery_def)
  have b: "BucketAggs ?q \<noteq> []"
    by (simp add: exampleQuery_def)
  obtain q' ms' result' where r: "?R = Inr (q', ms', result')"
    using processQuery_aggregating [OF g b, of exampleDataQuery "[]" "[]" 5000 9000 Map.empty]
    by blast
  have n: "?b\<lparr>BucketAgg.Settings := NewFromAny (BucketAgg_generateSettingsForDSL ?b)\<rparr>
           = exampleBucket ''2'' ''date_histogram'' (JObject [(''min_doc_count'', JInt 5)])"
    by (simp add: exampleBucket_def NewFromAny_def BucketAgg_generateSettingsForDSL_def
        BucketAgg_normalizedSettings_def setIntPath_def Json_Get_def Json_Map_def Json_String_def
        Json_MustMap_def ParseInt_5)
  have bs: "BucketAggs ?q = [?b]" and rid: "Query.RefID ?q = ''A''"
    by (simp_all add: exampleQuery_def)
  have f: "q' = ?q\<lparr>BucketAggs := BucketAggs q', Metrics := Metrics q'\<rparr>"
    and m: "BucketAggs q'
           = map (\<lambda>b. b\<lparr>BucketAgg.Settings := NewFromAny (BucketAgg_generateSettingsForDSL b)\<rparr>)
               (BucketAggs ?q)"
    using query_frame [OF r] b by blast+
  have "BucketAggs q' = [exampleBucket ''2'' ''date_histogram'' (JObject [(''min_doc_count'', JInt 5)])]"
    unfolding m bs using n by simp
  moreover have "Query.RefID q' = ''A''"
    by (subst f) (simp add: rid)
  ultimately show ?thesis
    by (simp add: r)
qed

text \<open>Against the claim as it was stated: a logs query without bucket aggregations leaves
  \<^verbatim>\<open>processQuery\<close> with one bucket aggregation in its list.\<close>

theorem query_frame_counterexample:
  "BucketAggs (exampleQuery [] [exampleMetric ''1'' ''logs'' [] [] (JObject [])] ''1s'') = []
   \<and> \<not> isl (processQuery exampleDeps [exampleDataQuery]
       (exampleQuery [] [exampleMetric ''1'' ''logs'' [] [] (JObject [])] ''1s'')
       [] 5000 9000 Map.empty)
   \<and> BucketAggs (fst (projr (processQuery exampleDeps [exampleDataQuery]
       (exampleQuery [] [exampleMetric ''1'' ''logs'' [] [] (JObject [])] ''1s'')
       [] 5000 9000 Map.empty)))
     = [\<lparr>BucketAgg.Field = ''@timestamp'', BucketAgg.ID = ''1'',
         BucketAgg.Settings = JObject [(''interval'', JString ''auto'')],
         BucketAgg.Type = ''date_histogram''\<rparr>]"
proof -
  let ?m = "exampleMetric ''1'' ''logs'' [] [] (JObject []) :: int MetricAgg"
  let ?q = "exampleQuery [] [?m] ''1s''"
  have g: "GetMinInterval exampleDeps (Query.Interval ?q) = Inr 1000"
    by (simp add: exampleDeps_def exampleQuery_def)
  have b: "BucketAggs ?q = []" and mt: "Metrics ?q = ?m # []"
    by (simp_all add: exampleQuery_def)
  have l: "MetricAgg.Type ?m = ''logs''"
    by (simp add: exampleMetric_def)
  obtain sr where "processQuery exampleDeps [exampleDataQuery] ?q [] 5000 9000 Map.empty
      = Inr (?q\<lparr>BucketAggs := [logsDateHistogram exampleDeps]\<rparr>, [] @ [sr], Map.empty)"
    using processQuery_logs [OF g b mt l, of exampleDataQuery "[]" "[]" 5000 9000 Map.empty]
    by blast
  then show ?thesis
    using b by (simp add: logsDateHistogram_def exampleDeps_def NewFromAny_def dateHistType_def)
qed


subsection \<open>The data-query list of execute\<close>

lemma execute_queries_no_panic:
  "execute_queries e (dq0 # dqs) qs ms from to result \<noteq> Inl IndexOutOfRange"
proof (induction qs arbitrary: ms result)
  case Nil
  show ?case by simp
next
  case (Cons q qs)
  consider (err) err where "processQuery e (dq0 # dqs) q ms from to result = Inl (Err err)"
    | (ok) q' b result' where "processQuery e (dq0 # dqs) q ms from to result = Inr (q', ms @ [b], result')"
    using processQuery_result [of e q dq0 dqs ms "from" to result] by blast
  then show ?case
  proof cases
    case err
    then show ?thesis by simp
  next
    case ok
    then show ?thesis
      using Cons.IH [of "ms @ [b]" result'] by (auto split: sum.splits)
  qed
qed

text \<open>
  Claim C10. \<^verbatim>\<open>execute\<close> reads the first element of the data-query list, so it panics
  with an index out of range exactly when the list is empty (the parser accepts an empty list,
  having no query to reject); and \<^verbatim>\<open>processQuery\<close> reads that first element again, after
  the minimum-interval lookup, and panics in the same way on an empty list.
\<close>

theorem execute_needs_data_query:
  "(execute c dataQueries = Inl IndexOutOfRange) = (dataQueries = [])
   \<and> (GetMinInterval e (Query.Interval q) = Inr mi
        \<longrightarrow> processQuery e [] q ms from to result = Inl IndexOutOfRange)"
proof -
  have 1: "execute c [] = Inl IndexOutOfRange"
    by (simp add: execute_def)
  have 2: "execute c (dq0 # dqs) \<noteq> Inl IndexOutOfRange" for dq0 dqs
    using execute_queries_no_panic [of c dq0 dqs]
    by (auto simp: execute_def Let_def simp del: execute_queries.simps
        split: sum.splits prod.splits)
  have "(execute c dataQueries = Inl IndexOutOfRange) = (dataQueries = [])"
    using 1 2 by (cases dataQueries) auto
  then show ?thesis
    using processQuery_no_data_query [of e q mi ms "from" to result] by blast
qed

text \<open>The empty list, and a list of one data query whose query has no aggregations.\<close>

theorem execute_needs_data_query_witness:
  "execute exampleDeps [] = Inl IndexOutOfRange
   \<and> execute exampleDeps [exampleDataQuery] \<noteq> Inl IndexOutOfRange
   \<and> GetMinInterval exampleDeps (Query.Interval (exampleQuery [] [] ''1s'')) = Inr 1000
   \<and> processQuery exampleDeps [] (exampleQuery [] [] ''1s'') [] 5000 9000 Map.empty
      = Inl IndexOutOfRange"
proof -
  have g: "GetMinInterval exampleDeps (Query.Interval (exampleQuery [] [] ''1s'' :: int Query)) = Inr 1000"
    by (simp add: exampleDeps_def exampleQuery_def)
  have a: "execute exampleDeps [] = Inl IndexOutOfRange"
    and b: "execute exampleDeps [exampleDataQuery] \<noteq> Inl IndexOutOfRange"
    and c: "processQuery exampleDeps [] (exampleQuery [] [] ''1s'') [] 5000 9000 Map.empty
      = Inl IndexOutOfRange"
    using execute_needs_data_query [of exampleDeps "[]" exampleDeps "exampleQuery [] [] ''1s''" 1000
        "[]" 5000 9000 Map.empty]
      execute_needs_data_query [of exampleDeps "[exampleDataQuery]" exampleDeps
        "exampleQuery [] [] ''1s''" 1000 "[]" 5000 9000 Map.empty] g
    by simp_all
  show ?thesis
    using a b c g by simp
qed

end
